theory Spec2Isabelle
  imports
    Main
    "HOL-Library.Word"
    "HOL-Library.List_Lexorder"
    "HOL-Library.Sublist"
    "HOL-Library.Multiset"
begin

text \<open>
  The repository holds two servers for the Todoist task service. The single-tool server
  (\<open>src/server.ts\<close>) registers one tool, \<open>todoist_get_tasks_by_filter\<close>. The full
  server, given as \<open>src/index.ts\<close> in the implementation document, has nine tools, the
  daily and weekly planning resources and two prompts. Both are modelled here from their
  code; the remote client and the JavaScript runtime are parameters.
\<close>

section \<open>JavaScript values\<close>

text \<open>
  A JavaScript string is a sequence of UTF-16 code units: \<open>length\<close> counts code units and
  the default \<open>sort\<close> compares them lexicographically, a proper prefix first. The function
  \<open>js\<close> turns an ASCII literal of the source into such a sequence; the characters of the
  source outside ASCII are written as their code units.
\<close>

type_synonym ustring = "16 word list"

definition js :: "string \<Rightarrow> ustring" where
  "js s = map (\<lambda>c. of_nat (of_char c)) s"

text \<open>\<open>xs.join(sep)\<close> on an array of strings.\<close>

fun join :: "ustring list \<Rightarrow> ustring \<Rightarrow> ustring" where
  "join [] sep = []"
| "join [x] sep = x"
| "join (x # y # ys) sep = x @ sep @ join (y # ys) sep"

text \<open>
  The text of a number in a template literal. The numbers rendered are array lengths and
  task priorities: integers, far below the magnitude where JavaScript switches to exponent
  notation.
\<close>

definition digit :: "nat \<Rightarrow> 16 word" where
  "digit d = of_nat (48 + d)"

function decimal :: "nat \<Rightarrow> ustring" where
  "decimal n = (if n < 10 then [digit n] else decimal (n div 10) @ [digit (n mod 10)])"
  by pat_completeness auto
termination
  by (relation "measure (\<lambda>n. n)") auto

declare decimal.simps [simp del]

definition number_text :: "int \<Rightarrow> ustring" where
  "number_text i = (if i < 0 then js ''-'' @ decimal (nat (- i)) else decimal (nat i))"

text \<open>
  The arguments of a request are JSON: \<open>arguments: any\<close> in the handlers. The request
  schema of the protocol makes them an object or leaves them out (\<open>undefined\<close>,
  \<open>None\<close> here).
\<close>

datatype jsval =
    JUndefined
  | JNull
  | JBool bool
  | JNum int
  | JStr ustring
  | JArr "jsval list"
  | JObj "(ustring \<times> jsval) list"

type_synonym jsobject = "(ustring \<times> jsval) list"
type_synonym args = "jsobject option"

text \<open>
  What a \<open>catch\<close> clause receives: an instance of \<open>Error\<close> with its message (a
  \<open>TypeError\<close> is one); another thrown value that \<open>String(error)\<close> turns into a
  text, kept as that text; or a thrown value whose conversion to text itself throws (an
  object with no usable \<open>toString\<close> and \<open>valueOf\<close>, or one whose \<open>toString\<close>
  throws), kept as what the conversion throws.
\<close>

datatype js_error =
    ErrorInstance ustring
  | ThrownValue ustring
  | Unconvertible js_error

text \<open>
  \<open>error instanceof Error ? error.message : String(error)\<close>, as every \<open>catch\<close>
  clause of the code evaluates it: the text of the failure, or the failure of the
  conversion.
\<close>

fun error_text :: "js_error \<Rightarrow> js_error + ustring" where
  "error_text (ErrorInstance message) = Inr message"
| "error_text (ThrownValue s) = Inr s"
| "error_text (Unconvertible thrown) = Inl thrown"

text \<open>\<open>args.key\<close>: reading a property of \<open>undefined\<close> throws a TypeError (the message
  is V8's), a property the object lacks reads as \<open>undefined\<close>.\<close>

definition get_prop :: "args \<Rightarrow> string \<Rightarrow> js_error + jsval" where
  "get_prop a key =
     (case a of
        None \<Rightarrow>
          Inl (ErrorInstance
            (js ''Cannot read properties of undefined (reading '' @ js [CHR 0x27] @ js key
               @ js [CHR 0x27] @ js '')''))
      | Some obj \<Rightarrow>
          (case map_of obj (js key) of None \<Rightarrow> Inr JUndefined | Some v \<Rightarrow> Inr v))"

text \<open>
  What the code takes from the JavaScript runtime and its environment: the text of an
  arbitrary value in a template literal, the English weekday name of a date string
  (\<open>new Date(date).toLocaleDateString("en-US", {weekday: "long"})\<close>), the current date
  (\<open>new Date().toISOString().split("T")[0]\<close>), and which of two concurrent remote calls
  settles first.
\<close>

record runtime =
  ToString :: "jsval \<Rightarrow> ustring"
  weekday_long :: "ustring \<Rightarrow> ustring"
  today_iso :: ustring
  first_settles_first :: bool

text \<open>
  \<open>await Promise.all([p, q])\<close>: the pair of both results, or the rejection of the promise
  that rejects first.
\<close>

definition promise_all2 ::
  "bool \<Rightarrow> js_error + 'a \<Rightarrow> js_error + 'b \<Rightarrow> js_error + ('a \<times> 'b)" where
  "promise_all2 p_first p q =
     (case p of
        Inr a \<Rightarrow> (case q of Inr b \<Rightarrow> Inr (a, b) | Inl e \<Rightarrow> Inl e)
      | Inl e1 \<Rightarrow> (case q of Inr b \<Rightarrow> Inl e1 | Inl e2 \<Rightarrow> Inl (if p_first then e1 else e2)))"

section \<open>Tasks, projects and the remote client\<close>

text \<open>
  The fields of a task the code reads. A field the code tests for truthiness is optional:
  \<open>None\<close> is \<open>undefined\<close> or \<open>null\<close>. The fields \<open>due_date\<close> and \<open>due_string\<close>
  are \<open>due.date\<close> and \<open>due.string\<close>, \<open>task_id\<close> and \<open>project_id\<close> are the two
  \<open>id\<close> fields.
\<close>

record due_info =
  due_date :: ustring
  due_string :: ustring

record task =
  task_id :: ustring
  content :: ustring
  description :: "ustring option"
  due :: "due_info option"
  priority :: int
  labels :: "ustring list option"
  projectId :: "ustring option"
  url :: ustring

record project =
  project_id :: ustring
  project_name :: ustring
  isShared :: bool

text \<open>
  The remote client (\<open>todoistClient\<close>) is outside the repository: each operation is a
  function of its arguments that returns a result or fails.
\<close>

record todoist_client =
  addTask :: "args \<Rightarrow> js_error + task"
  getTasks :: "args \<Rightarrow> js_error + task list"
  getTasksByFilter :: "args \<Rightarrow> js_error + task list"
  updateTask :: "jsval \<Rightarrow> jsobject \<Rightarrow> js_error + task"
  closeTask :: "jsval \<Rightarrow> js_error + bool"
  reopenTask :: "jsval \<Rightarrow> js_error + bool"
  deleteTask :: "jsval \<Rightarrow> js_error + bool"
  getProjects :: "js_error + project list"
  quickAddTask :: "args \<Rightarrow> js_error + task"

text \<open>The object literal \<open>{ filter: f }\<close>.\<close>

definition filter_query :: "string \<Rightarrow> args" where
  "filter_query f = Some [(js ''filter'', JStr (js f))]"

section \<open>The daily planning view\<close>

text \<open>\<open>tasks.map((task) => `- ${task.content}`).join("\n")\<close>\<close>

definition content_lines :: "task list \<Rightarrow> ustring" where
  "content_lines tasks = join (map (\<lambda>task. js ''- '' @ content task) tasks) (js ''\<newline>'')"

definition urgent :: "task list \<Rightarrow> task list" where
  "urgent todayTasks = filter (\<lambda>t. priority t = 4) todayTasks"

definition high :: "task list \<Rightarrow> task list" where
  "high todayTasks = filter (\<lambda>t. priority t = 3) todayTasks"

definition normal :: "task list \<Rightarrow> task list" where
  "normal todayTasks = filter (\<lambda>t. priority t \<le> 2) todayTasks"

text \<open>The document built from the two query results (the body after \<open>Promise.all\<close>).\<close>

definition daily_document :: "task list \<Rightarrow> task list \<Rightarrow> ustring" where
  \<open>daily_document todayTasks overdueTasks =
     (let c0 = js ''# Daily Planning Overview\<newline>\<newline>'';
          c1 = (if length overdueTasks > 0
                then c0 @ js ''## '' @ [0xD83D, 0xDEA8] @ js '' Overdue Tasks\<newline>''
                        @ content_lines overdueTasks @ js ''\<newline>\<newline>''
                else c0);
          c2 = (if length todayTasks > 0
                then
                  (let d0 = c1 @ js ''## '' @ [0xD83D, 0xDCC5] @ js '' Today's Tasks\<newline>'';
                       d1 = (if length (urgent todayTasks) > 0
                             then d0 @ js ''### '' @ [0xD83D, 0xDD34] @ js '' Urgent\<newline>''
                                     @ content_lines (urgent todayTasks) @ js ''\<newline>\<newline>''
                             else d0);
                       d2 = (if length (high todayTasks) > 0
                             then d1 @ js ''### '' @ [0xD83D, 0xDFE1] @ js '' High Priority\<newline>''
                                     @ content_lines (high todayTasks) @ js ''\<newline>\<newline>''
                             else d1);
                       d3 = (if length (normal todayTasks) > 0
                             then d2 @ js ''### '' @ [0x26AA] @ js '' Normal\<newline>''
                                     @ content_lines (normal todayTasks) @ js ''\<newline>\<newline>''
                             else d2)
                   in d3)
                else c1 @ js ''## '' @ [0xD83D, 0xDCC5]
                        @ js '' Today's Tasks\<newline>No tasks scheduled for today.\<newline>\<newline>'')
      in c2 @ js ''**Summary:** '' @ decimal (length overdueTasks) @ js '' overdue, ''
            @ decimal (length todayTasks) @ js '' today'')\<close>

definition generateDailyPlanningView :: "runtime \<Rightarrow> todoist_client \<Rightarrow> js_error + ustring" where
  "generateDailyPlanningView rt client =
     (case promise_all2 (first_settles_first rt)
             (getTasksByFilter client (filter_query ''today''))
             (getTasksByFilter client (filter_query ''overdue'')) of
        Inl e \<Rightarrow> Inl e
      | Inr (todayTasks, overdueTasks) \<Rightarrow> Inr (daily_document todayTasks overdueTasks))"

section \<open>The weekly planning view\<close>

text \<open>
  \<open>tasksByDate\<close> is an object used as a dictionary, kept here as the list of its own
  properties in insertion order. A key that names a property every object inherits from
  \<open>Object.prototype\<close> reads as that inherited value, which is truthy and has no
  \<open>push\<close>: the call throws a TypeError (the message is V8's).
\<close>

definition object_prototype_names :: "ustring list" where
  "object_prototype_names =
     map js [''constructor'', ''__defineGetter__'', ''__defineSetter__'', ''hasOwnProperty'',
             ''__lookupGetter__'', ''__lookupSetter__'', ''isPrototypeOf'',
             ''propertyIsEnumerable'', ''toString'', ''valueOf'', ''__proto__'',
             ''toLocaleString'']"

text \<open>One call of the \<open>forEach\<close> callback.\<close>

definition group_task ::
  "(ustring \<times> task list) list \<Rightarrow> task \<Rightarrow> js_error + (ustring \<times> task list) list" where
  "group_task tasksByDate task =
     (case due task of
        None \<Rightarrow> Inr tasksByDate
      | Some d \<Rightarrow>
          (let dateKey = due_date d in
           if dateKey \<in> set object_prototype_names
           then Inl (ErrorInstance (js ''tasksByDate[dateKey].push is not a function''))
           else (case map_of tasksByDate dateKey of
                   None \<Rightarrow> Inr (tasksByDate @ [(dateKey, [task])])
                 | Some ts \<Rightarrow>
                     Inr (map (\<lambda>(k, v). if k = dateKey then (k, v @ [task]) else (k, v))
                            tasksByDate))))"

fun group_by_date ::
  "task list \<Rightarrow> (ustring \<times> task list) list \<Rightarrow> js_error + (ustring \<times> task list) list" where
  "group_by_date [] tasksByDate = Inr tasksByDate"
| "group_by_date (task # rest) tasksByDate =
     (case group_task tasksByDate task of
        Inl e \<Rightarrow> Inl e
      | Inr tasksByDate' \<Rightarrow> group_by_date rest tasksByDate')"

text \<open>\<open>Object.keys(tasksByDate).sort()\<close>: the default sort, by code units.\<close>

definition sortedDates :: "(ustring \<times> task list) list \<Rightarrow> ustring list" where
  "sortedDates tasksByDate = sort (map fst tasksByDate)"

text \<open>The heading of a date section (the first template of the loop body).\<close>

definition date_heading :: "runtime \<Rightarrow> ustring \<Rightarrow> ustring" where
  "date_heading rt date =
     (let dayName = weekday_long rt date;
          isToday = (date = today_iso rt)
      in js ''## '' @ dayName @ js '', '' @ date @ (if isToday then js '' (Today)'' else [])
           @ js ''\<newline>'')"

text \<open>The loop \<open>for (const date of sortedDates)\<close>, appending to \<open>content\<close>.\<close>

fun render_dates ::
  "runtime \<Rightarrow> (ustring \<times> task list) list \<Rightarrow> ustring list \<Rightarrow> ustring \<Rightarrow> js_error + ustring" where
  "render_dates rt tasksByDate [] content' = Inr content'"
| "render_dates rt tasksByDate (date # dates) content' =
     (case map_of tasksByDate date of
        None \<Rightarrow>
          Inl (ErrorInstance
            (js ''Cannot read properties of undefined (reading '' @ js [CHR 0x27] @ js ''map''
               @ js [CHR 0x27] @ js '')''))
      | Some ts \<Rightarrow>
          render_dates rt tasksByDate dates
            (content' @ date_heading rt date @ content_lines ts @ js ''\<newline>\<newline>''))"

definition weekly_document :: "runtime \<Rightarrow> task list \<Rightarrow> js_error + ustring" where
  "weekly_document rt weekTasks =
     (let c0 = js ''# Weekly Planning Overview\<newline>\<newline>'' in
      if length weekTasks = 0 then Inr (c0 @ js ''No tasks scheduled for this week.'')
      else
        (case group_by_date weekTasks [] of
           Inl e \<Rightarrow> Inl e
         | Inr tasksByDate \<Rightarrow>
             (case render_dates rt tasksByDate (sortedDates tasksByDate) c0 of
                Inl e \<Rightarrow> Inl e
              | Inr c1 \<Rightarrow>
                  Inr (c1 @ js ''**Total this week:** '' @ decimal (length weekTasks)
                          @ js '' tasks''))))"

definition generateWeeklyPlanningView :: "runtime \<Rightarrow> todoist_client \<Rightarrow> js_error + ustring" where
  "generateWeeklyPlanningView rt client =
     (case getTasksByFilter client (filter_query ''7 days'') of
        Inl e \<Rightarrow> Inl e
      | Inr weekTasks \<Rightarrow> weekly_document rt weekTasks)"

section \<open>The tool handlers\<close>

text \<open>
  The response of a tool call: \<open>{ content: [{ type, text }], isError }\<close>. A handler that
  leaves \<open>isError\<close> out returns \<open>None\<close> there. The field \<open>content_blocks\<close> is
  \<open>content\<close>, \<open>block_type\<close> is \<open>type\<close> and \<open>block_text\<close> is \<open>text\<close>.
\<close>

record text_block =
  block_type :: ustring
  block_text :: ustring

record tool_result =
  content_blocks :: "text_block list"
  isError :: "bool option"

text \<open>\<open>{ content: [{ type: "text", text: t }] }\<close>\<close>

definition text_result :: "ustring \<Rightarrow> tool_result" where
  "text_result t = \<lparr>content_blocks = [\<lparr>block_type = js ''text'', block_text = t\<rparr>], isError = None\<rparr>"

text \<open>The shared helper \<open>formatTaskDetails\<close>: the array \<open>parts\<close>, then the joined text.\<close>

definition formatTaskDetails_parts :: "task \<Rightarrow> ustring list" where
  "formatTaskDetails_parts task =
     [[0x2022] @ js '' '' @ content task @ js '' (ID: '' @ task_id task @ js '')'']
     @ (case description task of
          None \<Rightarrow> []
        | Some d \<Rightarrow> if d \<noteq> [] then [js ''  Description: '' @ d] else [])
     @ (case due task of
          None \<Rightarrow> []
        | Some d \<Rightarrow> [js ''  Due: '' @ due_string d])
     @ (if priority task > 1 then [js ''  Priority: '' @ number_text (priority task)] else [])
     @ (case labels task of
          None \<Rightarrow> []
        | Some ls \<Rightarrow> if length ls > 0 then [js ''  Labels: '' @ join ls (js '', '')] else [])
     @ (case projectId task of
          None \<Rightarrow> []
        | Some p \<Rightarrow> if p \<noteq> [] then [js ''  Project: '' @ p] else [])"

definition formatTaskDetails :: "task \<Rightarrow> ustring" where
  "formatTaskDetails task = join (formatTaskDetails_parts task) (js ''\<newline>'')"

text \<open>
  The nine tool implementations. Each awaits its remote call, so a failure of the call is
  the failure of the handler.
\<close>

definition addTask_tool :: "todoist_client \<Rightarrow> args \<Rightarrow> js_error + tool_result" where
  \<open>addTask_tool client a =
     (case addTask client a of
        Inl e \<Rightarrow> Inl e
      | Inr task \<Rightarrow>
          Inr (text_result
            ([0x2713] @ js '' Created task: "'' @ content task @ js ''"\<newline>ID: '' @ task_id task
               @ js ''\<newline>URL: '' @ url task)))\<close>

definition getTasks_tool :: "todoist_client \<Rightarrow> args \<Rightarrow> js_error + tool_result" where
  "getTasks_tool client a =
     (case getTasks client a of
        Inl e \<Rightarrow> Inl e
      | Inr tasks \<Rightarrow>
          if length tasks = 0
          then Inr (text_result (js ''No tasks found matching the criteria.''))
          else
            (let formatted = join (map formatTaskDetails tasks) (js ''\<newline>\<newline>'') in
             Inr (text_result
               (js ''Found '' @ decimal (length tasks) @ js '' tasks:\<newline>\<newline>'' @ formatted))))"

definition getTasksByFilter_tool ::
  "runtime \<Rightarrow> todoist_client \<Rightarrow> args \<Rightarrow> js_error + tool_result" where
  \<open>getTasksByFilter_tool rt client a =
     (case getTasksByFilter client a of
        Inl e \<Rightarrow> Inl e
      | Inr tasks \<Rightarrow>
          if length tasks = 0
          then Inr (text_result (js ''No tasks found matching the filter.''))
          else
            (let formatted = join (map formatTaskDetails tasks) (js ''\<newline>\<newline>'') in
             case get_prop a ''filter'' of
               Inl e \<Rightarrow> Inl e
             | Inr f \<Rightarrow>
                 Inr (text_result
                   (js ''Found '' @ decimal (length tasks) @ js '' tasks with filter "''
                      @ ToString rt f @ js ''":\<newline>\<newline>'' @ formatted))))\<close>

text \<open>
  \<open>const { task_id, ...updateData } = args\<close>: destructuring \<open>undefined\<close> throws a
  TypeError (the message is V8's); the rest object holds every property but \<open>task_id\<close>.
\<close>

definition updateTask_tool :: "todoist_client \<Rightarrow> args \<Rightarrow> js_error + tool_result" where
  \<open>updateTask_tool client a =
     (case a of
        None \<Rightarrow>
          Inl (ErrorInstance
            (js ''Cannot destructure property 'task_id' of 'args' as it is undefined.''))
      | Some obj \<Rightarrow>
          (let task_id' = (case map_of obj (js ''task_id'') of None \<Rightarrow> JUndefined | Some v \<Rightarrow> v);
               updateData = filter (\<lambda>(k, v). k \<noteq> js ''task_id'') obj
           in case updateTask client task_id' updateData of
                Inl e \<Rightarrow> Inl e
              | Inr updatedTask \<Rightarrow>
                  Inr (text_result
                    ([0x2713] @ js '' Updated task: "'' @ content updatedTask @ js ''"\<newline>ID: ''
                       @ task_id updatedTask))))\<close>

definition closeTask_tool :: "runtime \<Rightarrow> todoist_client \<Rightarrow> args \<Rightarrow> js_error + tool_result" where
  "closeTask_tool rt client a =
     (case get_prop a ''task_id'' of
        Inl e \<Rightarrow> Inl e
      | Inr tid \<Rightarrow>
          (case closeTask client tid of
             Inl e \<Rightarrow> Inl e
           | Inr success \<Rightarrow>
               Inr (text_result
                 (if success
                  then [0x2713] @ js '' Task '' @ ToString rt tid @ js '' marked as complete''
                  else [0x2717] @ js '' Failed to complete task '' @ ToString rt tid))))"

definition reopenTask_tool :: "runtime \<Rightarrow> todoist_client \<Rightarrow> args \<Rightarrow> js_error + tool_result" where
  "reopenTask_tool rt client a =
     (case get_prop a ''task_id'' of
        Inl e \<Rightarrow> Inl e
      | Inr tid \<Rightarrow>
          (case reopenTask client tid of
             Inl e \<Rightarrow> Inl e
           | Inr success \<Rightarrow>
               Inr (text_result
                 (if success
                  then [0x2713] @ js '' Task '' @ ToString rt tid @ js '' reopened''
                  else [0x2717] @ js '' Failed to reopen task '' @ ToString rt tid))))"

definition deleteTask_tool :: "runtime \<Rightarrow> todoist_client \<Rightarrow> args \<Rightarrow> js_error + tool_result" where
  "deleteTask_tool rt client a =
     (case get_prop a ''task_id'' of
        Inl e \<Rightarrow> Inl e
      | Inr tid \<Rightarrow>
          (case deleteTask client tid of
             Inl e \<Rightarrow> Inl e
           | Inr success \<Rightarrow>
               Inr (text_result
                 (if success
                  then [0x2713] @ js '' Task '' @ ToString rt tid @ js '' deleted permanently''
                  else [0x2717] @ js '' Failed to delete task '' @ ToString rt tid))))"

definition getProjects_tool :: "todoist_client \<Rightarrow> js_error + tool_result" where
  "getProjects_tool client =
     (case getProjects client of
        Inl e \<Rightarrow> Inl e
      | Inr projects \<Rightarrow>
          (let formatted =
                 join (map (\<lambda>project. js ''- '' @ project_name project @ js '' (ID: ''
                                          @ project_id project @ js '')''
                                          @ (if isShared project then js '' [Shared]'' else []))
                         projects)
                   (js ''\<newline>'')
           in Inr (text_result (js ''Projects:\<newline>'' @ formatted))))"

definition quickAddTask_tool :: "todoist_client \<Rightarrow> args \<Rightarrow> js_error + tool_result" where
  \<open>quickAddTask_tool client a =
     (case quickAddTask client a of
        Inl e \<Rightarrow> Inl e
      | Inr task \<Rightarrow>
          Inr (text_result
            ([0x2713] @ js '' Quick-added task: "'' @ content task @ js ''"\<newline>ID: ''
               @ task_id task)))\<close>

text \<open>The names the tool list declares (the registry).\<close>

definition tool_names :: "ustring list" where
  "tool_names =
     map js [''todoist_add_task'', ''todoist_get_tasks'', ''todoist_get_tasks_by_filter'',
             ''todoist_update_task'', ''todoist_close_task'', ''todoist_reopen_task'',
             ''todoist_delete_task'', ''todoist_get_projects'', ''todoist_quick_add_task'']"

text \<open>The \<open>switch\<close> of the tool-call handler: the body of its \<open>try\<close>.\<close>

definition tool_switch ::
  "runtime \<Rightarrow> todoist_client \<Rightarrow> ustring \<Rightarrow> args \<Rightarrow> js_error + tool_result" where
  "tool_switch rt client name a =
     (if name = js ''todoist_add_task'' then addTask_tool client a
      else if name = js ''todoist_get_tasks'' then getTasks_tool client a
      else if name = js ''todoist_get_tasks_by_filter'' then getTasksByFilter_tool rt client a
      else if name = js ''todoist_update_task'' then updateTask_tool client a
      else if name = js ''todoist_close_task'' then closeTask_tool rt client a
      else if name = js ''todoist_reopen_task'' then reopenTask_tool rt client a
      else if name = js ''todoist_delete_task'' then deleteTask_tool rt client a
      else if name = js ''todoist_get_projects'' then getProjects_tool client
      else if name = js ''todoist_quick_add_task'' then quickAddTask_tool client a
      else Inl (ErrorInstance (js ''Unknown tool: '' @ name)))"

text \<open>
  The handler of tool calls (the dispatcher), with its \<open>catch\<close> clause: \<open>Inl\<close> is a
  failure that leaves the handler. The clause builds the text of the response from the
  caught value, and what that conversion throws is thrown by the handler.
\<close>

definition CallTool_handler ::
  "runtime \<Rightarrow> todoist_client \<Rightarrow> ustring \<Rightarrow> args \<Rightarrow> js_error + tool_result" where
  "CallTool_handler rt client name a =
     (case tool_switch rt client name a of
        Inr result \<Rightarrow> Inr result
      | Inl error \<Rightarrow>
          (case error_text error of
             Inl thrown \<Rightarrow> Inl thrown
           | Inr message \<Rightarrow>
               Inr \<lparr>content_blocks =
                      [\<lparr>block_type = js ''text'', block_text = js ''Error: '' @ message\<rparr>],
                    isError = Some True\<rparr>))"

section \<open>The resource handler\<close>

text \<open>One entry of \<open>contents\<close>; \<open>resource_text\<close> is its \<open>text\<close>.\<close>

record resource_content =
  uri :: ustring
  mimeType :: ustring
  resource_text :: ustring

definition ReadResource_handler ::
  "runtime \<Rightarrow> todoist_client \<Rightarrow> ustring \<Rightarrow> js_error + resource_content list" where
  "ReadResource_handler rt client u =
     (case (if u = js ''todoist://planning/daily'' then generateDailyPlanningView rt client
            else if u = js ''todoist://planning/weekly'' then generateWeeklyPlanningView rt client
            else Inl (ErrorInstance (js ''Unknown resource: '' @ u))) of
        Inr content' \<Rightarrow>
          Inr [\<lparr>uri = u, mimeType = js ''text/markdown'', resource_text = content'\<rparr>]
      | Inl error \<Rightarrow>
          (case error_text error of
             Inl thrown \<Rightarrow> Inl thrown
           | Inr message \<Rightarrow>
               Inr [\<lparr>uri = u, mimeType = js ''text/markdown'',
                     resource_text = js ''Error: '' @ message\<rparr>]))"

section \<open>The prompt handler\<close>

text \<open>
  A prompt: \<open>{ description, messages: [{ role, content: { type, text } }] }\<close>, with
  \<open>message_type\<close> and \<open>message_text\<close> the two fields of \<open>content\<close>.
\<close>

record prompt_message =
  role :: ustring
  message_type :: ustring
  message_text :: ustring

record prompt_result =
  prompt_description :: ustring
  messages :: "prompt_message list"

definition prompt_names :: "ustring list" where
  "prompt_names = map js [''daily_planner'', ''task_manager'']"

definition generateDailyPlannerPrompt :: "runtime \<Rightarrow> todoist_client \<Rightarrow> js_error + prompt_result" where
  \<open>generateDailyPlannerPrompt rt client =
     (case generateDailyPlanningView rt client of
        Inl e \<Rightarrow> Inl e
      | Inr dailyView \<Rightarrow>
          Inr \<lparr>prompt_description = js ''Daily planning assistant'',
               messages =
                 [\<lparr>role = js ''user'', message_type = js ''text'',
                   message_text =
                     js ''I need help planning my day. Here's my current task situation:\<newline>\<newline>''
                     @ dailyView
                     @ js ''\<newline>\<newline>Please help me:\<newline>''
                     @ js ''1. **Prioritize** - What should I focus on first?\<newline>''
                     @ js ''2. **Schedule** - How should I organize my day?\<newline>''
                     @ js ''3. **Capacity** - Is this realistic for today?\<newline>''
                     @ js ''4. **Actions** - What specific steps should I take?\<newline>\<newline>''
                     @ js ''Provide a concrete daily plan with time estimates and suggest any Todoist commands I should run.''\<rparr>]\<rparr>)\<close>

text \<open>\<open>context\<close> is \<open>args?.context\<close>; an empty string is falsy.\<close>

definition generateTaskManagerPrompt ::
  "runtime \<Rightarrow> todoist_client \<Rightarrow> ustring option \<Rightarrow> js_error + prompt_result" where
  \<open>generateTaskManagerPrompt rt client context' =
     (case generateWeeklyPlanningView rt client of
        Inl e \<Rightarrow> Inl e
      | Inr weeklyView \<Rightarrow>
          (let contextText =
                 (case context' of
                    None \<Rightarrow> []
                  | Some c \<Rightarrow> if c \<noteq> [] then js ''\<newline>\<newline>Specific context: '' @ c else [])
           in Inr \<lparr>prompt_description = js ''Task management assistant'',
                    messages =
                      [\<lparr>role = js ''user'', message_type = js ''text'',
                        message_text =
                          js ''I need help managing my tasks effectively. Here's my current workload:\<newline>\<newline>''
                          @ weeklyView @ contextText
                          @ js ''\<newline>\<newline>Please help me:\<newline>''
                          @ js ''1. **Organization** - How can I better organize these tasks?\<newline>''
                          @ js ''2. **Workflow** - What's the most efficient approach?\<newline>''
                          @ js ''3. **Tools** - What Todoist features/commands would help?\<newline>''
                          @ js ''4. **Planning** - How should I approach this workload?\<newline>\<newline>''
                          @ js ''Give me actionable advice and specific Todoist commands I can use.''\<rparr>]\<rparr>))\<close>

text \<open>
  The handler of prompt requests. Its \<open>switch\<close> stands in no \<open>try\<close>: what a branch
  throws leaves the handler. The arguments of a prompt are strings by name, or left out.
\<close>

definition GetPrompt_handler ::
  "runtime \<Rightarrow> todoist_client \<Rightarrow> ustring \<Rightarrow> (ustring \<times> ustring) list option
     \<Rightarrow> js_error + prompt_result" where
  "GetPrompt_handler rt client name a =
     (if name = js ''daily_planner'' then generateDailyPlannerPrompt rt client
      else if name = js ''task_manager''
      then generateTaskManagerPrompt rt client
             (case a of None \<Rightarrow> None | Some obj \<Rightarrow> map_of obj (js ''context''))
      else Inl (ErrorInstance (js ''Unknown prompt: '' @ name)))"

section \<open>Declared input schemas\<close>

text \<open>
  What a declaration says about a string argument: its length bounds, where it gives any.
  An input schema lists the string arguments and the names that are required. A zod string
  with \<open>.min(m).max(n)\<close> has both bounds and is required unless \<open>.optional()\<close>; a JSON
  schema property \<open>{ type: "string" }\<close> has no bound.
\<close>

record string_schema =
  minLength :: "nat option"
  maxLength :: "nat option"

record input_schema =
  properties :: "(string \<times> string_schema) list"
  required :: "string list"

definition string_schema_accepts :: "string_schema \<Rightarrow> ustring \<Rightarrow> bool" where
  "string_schema_accepts s x =
     ((case minLength s of None \<Rightarrow> True | Some m \<Rightarrow> m \<le> length x)
      \<and> (case maxLength s of None \<Rightarrow> True | Some n \<Rightarrow> length x \<le> n))"

text \<open>
  Validation of an argument object, as the schema libraries (zod, JSON Schema) define it
  for these declarations: every declared argument is a string within its bounds, or is
  absent and not required. Arguments the schema does not declare are ignored. Lengths are
  counted in code units.
\<close>

definition schema_accepts :: "input_schema \<Rightarrow> args \<Rightarrow> bool" where
  "schema_accepts sch a =
     (case a of
        None \<Rightarrow> False
      | Some obj \<Rightarrow>
          list_all
            (\<lambda>(key, s).
               case (case map_of obj (js key) of None \<Rightarrow> JUndefined | Some v \<Rightarrow> v) of
                 JStr x \<Rightarrow> string_schema_accepts s x
               | JUndefined \<Rightarrow> key \<notin> set (required sch)
               | _ \<Rightarrow> False)
            (properties sch))"

text \<open>The \<open>inputSchema\<close> the tool list declares for \<open>todoist_get_tasks_by_filter\<close>.\<close>

definition listed_filter_inputSchema :: input_schema where
  "listed_filter_inputSchema =
     \<lparr>properties = [(''filter'', \<lparr>minLength = None, maxLength = None\<rparr>),
                    (''lang'', \<lparr>minLength = None, maxLength = None\<rparr>)],
      required = [''filter'']\<rparr>"

section \<open>The server with the single filter tool\<close>

text \<open>The zod shape \<open>server.tool\<close> is given for \<open>todoist_get_tasks_by_filter\<close>.\<close>

definition server_filter_inputSchema :: input_schema where
  "server_filter_inputSchema =
     \<lparr>properties = [(''query'', \<lparr>minLength = Some 1, maxLength = Some 1024\<rparr>),
                    (''lang'', \<lparr>minLength = None, maxLength = None\<rparr>)],
      required = [''query'']\<rparr>"

definition priorityLabels :: "int \<Rightarrow> ustring option" where
  "priorityLabels p =
     (if p = 2 then Some (js ''Low'')
      else if p = 3 then Some (js ''Medium'')
      else if p = 4 then Some (js ''High'')
      else None)"

text \<open>The callback of \<open>tasks.map\<close> in the handler: the array \<open>parts\<close> of one task.\<close>

definition formattedTasks_parts :: "task \<Rightarrow> ustring list" where
  "formattedTasks_parts task =
     [[0x2022] @ js '' '' @ content task @ js '' (ID: '' @ task_id task @ js '')'']
     @ (case description task of
          None \<Rightarrow> []
        | Some d \<Rightarrow> if d \<noteq> [] then [js ''  Description: '' @ d] else [])
     @ (case due task of
          None \<Rightarrow> []
        | Some d \<Rightarrow> [js ''  Due: '' @ due_string d])
     @ (if priority task > 1
        then [js ''  Priority: ''
                @ (case priorityLabels (priority task) of
                     Some label \<Rightarrow> label
                   | None \<Rightarrow> number_text (priority task))]
        else [])
     @ (case labels task of
          None \<Rightarrow> []
        | Some ls \<Rightarrow> if length ls > 0 then [js ''  Labels: '' @ join ls (js '', '')] else [])
     @ (case projectId task of
          None \<Rightarrow> []
        | Some p \<Rightarrow> if p \<noteq> [] then [js ''  Project ID: '' @ p] else [])"

definition formattedTasks :: "task list \<Rightarrow> ustring" where
  "formattedTasks tasks =
     join (map (\<lambda>task. join (formattedTasks_parts task) (js ''\<newline>'')) tasks)
       (js ''\<newline>\<newline>'')"

text \<open>The handler of the tool: its whole body is a \<open>try\<close> with a \<open>catch\<close>.\<close>

definition todoist_get_tasks_by_filter ::
  "todoist_client \<Rightarrow> ustring \<Rightarrow> ustring option \<Rightarrow> js_error + tool_result" where
  \<open>todoist_get_tasks_by_filter client query lang =
     (case getTasks client
             (Some [(js ''filter'', JStr query),
                    (js ''lang'', (case lang of None \<Rightarrow> JUndefined | Some l \<Rightarrow> JStr l))]) of
        Inr tasks \<Rightarrow>
          if length tasks = 0
          then Inr (text_result (js ''No tasks found matching filter: "'' @ query @ js ''"''))
          else Inr (text_result
                 (js ''Found '' @ decimal (length tasks) @ js '' tasks with filter "'' @ query
                    @ js ''":\<newline>\<newline>'' @ formattedTasks tasks))
      | Inl error \<Rightarrow>
          (case error_text error of
             Inl thrown \<Rightarrow> Inl thrown
           | Inr message \<Rightarrow>
               Inr \<lparr>content_blocks =
                      [\<lparr>block_type = js ''text'',
                        block_text = js ''Error fetching tasks: '' @ message\<rparr>],
                    isError = Some True\<rparr>))\<close>

text \<open>
  A call of the tool. \<open>server.tool(name, shape, handler)\<close> hands the shape to the
  protocol library, which validates the arguments of a call against it and runs the
  handler on the validated \<open>query\<close> and \<open>lang\<close> only when they pass; otherwise it
  answers that the parameters are invalid.
\<close>

datatype 'a validated = InvalidParams | Invoked 'a

definition string_arg :: "jsobject \<Rightarrow> string \<Rightarrow> ustring option" where
  "string_arg obj key = (case map_of obj (js key) of Some (JStr x) \<Rightarrow> Some x | _ \<Rightarrow> None)"

definition server_tool_call :: "todoist_client \<Rightarrow> args \<Rightarrow> (js_error + tool_result) validated" where
  "server_tool_call client a =
     (if \<not> schema_accepts server_filter_inputSchema a then InvalidParams
      else
        (case a of
           None \<Rightarrow> InvalidParams
         | Some obj \<Rightarrow>
             (case string_arg obj ''query'' of
                None \<Rightarrow> InvalidParams
              | Some query \<Rightarrow>
                  Invoked (todoist_get_tasks_by_filter client query (string_arg obj ''lang'')))))"

section \<open>Example inputs\<close>

text \<open>
  A runtime, tasks and a client for the worked examples below: the client answers both
  task queries with the given function and is offline for everything else.
\<close>

definition example_runtime :: runtime where
  "example_runtime =
     \<lparr>ToString = (\<lambda>v. case v of JStr s \<Rightarrow> s | _ \<Rightarrow> js ''undefined''),
      weekday_long = (\<lambda>date. js ''Someday''),
      today_iso = js ''2024-05-01'',
      first_settles_first = True\<rparr>"

definition example_task :: "string \<Rightarrow> int \<Rightarrow> string option \<Rightarrow> task" where
  "example_task c p d =
     \<lparr>task_id = js ''1'', content = js c, description = None,
      due = map_option (\<lambda>x. \<lparr>due_date = js x, due_string = js x\<rparr>) d,
      priority = p, labels = None, projectId = None, url = js ''https://example.org/1''\<rparr>"

definition offline :: js_error where
  "offline = ErrorInstance (js ''offline'')"

definition example_client :: "(args \<Rightarrow> js_error + task list) \<Rightarrow> todoist_client" where
  "example_client query =
     \<lparr>addTask = (\<lambda>a. Inl offline), getTasks = query, getTasksByFilter = query,
      updateTask = (\<lambda>i d. Inl offline), closeTask = (\<lambda>i. Inl offline),
      reopenTask = (\<lambda>i. Inl offline), deleteTask = (\<lambda>i. Inl offline),
      getProjects = Inl offline, quickAddTask = (\<lambda>a. Inl offline)\<rparr>"

section \<open>Terms for stating the weekly view\<close>

text \<open>
  The date keys of a task list in the order of the list (a task without a due date has
  none), and the tasks of a list that are due on a date, in the order of the list.
\<close>

definition task_dates :: "task list \<Rightarrow> ustring list" where
  "task_dates tasks =
     concat (map (\<lambda>t. case due t of None \<Rightarrow> [] | Some d \<Rightarrow> [due_date d]) tasks)"

definition tasks_on :: "ustring \<Rightarrow> task list \<Rightarrow> task list" where
  "tasks_on date tasks =
     filter (\<lambda>t. case due t of None \<Rightarrow> False | Some d \<Rightarrow> due_date d = date) tasks"

text \<open>The value the dictionary holds under a key, empty when it has none.\<close>

definition tasks_under :: "(ustring \<times> task list) list \<Rightarrow> ustring \<Rightarrow> task list" where
  "tasks_under tasksByDate k = (case map_of tasksByDate k of None \<Rightarrow> [] | Some ts \<Rightarrow> ts)"

section \<open>The daily view\<close>

text \<open>
  Claim C1. For every list of today's tasks whose priorities lie in \<open>{1, 2, 3, 4}\<close>, the
  urgent bucket (priority 4), the high bucket (priority 3) and the normal bucket (priority
  at most 2) of the daily view are a disjoint cover of the list: together they hold
  every task as often as the list does, no task is in two of them, and which bucket holds
  a task is decided by its priority alone.
\<close>

theorem daily_buckets_partition:
  assumes "\<forall>t \<in> set todayTasks. priority t \<in> {1, 2, 3, 4}"
  shows "mset (urgent todayTasks) + mset (high todayTasks) + mset (normal todayTasks)
           = mset todayTasks
       \<and> set (urgent todayTasks) \<inter> set (high todayTasks) = {}
       \<and> set (urgent todayTasks) \<inter> set (normal todayTasks) = {}
       \<and> set (high todayTasks) \<inter> set (normal todayTasks) = {}
       \<and> (\<forall>t \<in> set todayTasks.
             (t \<in> set (urgent todayTasks)) = (priority t = 4)
           \<and> (t \<in> set (high todayTasks)) = (priority t = 3)
           \<and> (t \<in> set (normal todayTasks)) = (priority t \<le> 2)
           \<and> length (filter (\<lambda>bucket. t \<in> set bucket)
                 [urgent todayTasks, high todayTasks, normal todayTasks]) = 1)"
proof -
  have cover: "mset (urgent todayTasks) + mset (high todayTasks) + mset (normal todayTasks)
      = mset todayTasks"
    using assms
  proof (induction todayTasks)
    case Nil
    show ?case by (simp add: urgent_def high_def normal_def)
  next
    case (Cons t ts)
    then have p: "priority t = 1 \<or> priority t = 2 \<or> priority t = 3 \<or> priority t = 4"
      by simp
    from Cons have "mset (urgent ts) + mset (high ts) + mset (normal ts) = mset ts"
      by simp
    with p show ?case
      by (auto simp: urgent_def high_def normal_def)
  qed
  have disj: "set (urgent todayTasks) \<inter> set (high todayTasks) = {}"
    "set (urgent todayTasks) \<inter> set (normal todayTasks) = {}"
    "set (high todayTasks) \<inter> set (normal todayTasks) = {}"
    by (auto simp: urgent_def high_def normal_def)
  have each: "\<forall>t \<in> set todayTasks.
             (t \<in> set (urgent todayTasks)) = (priority t = 4)
           \<and> (t \<in> set (high todayTasks)) = (priority t = 3)
           \<and> (t \<in> set (normal todayTasks)) = (priority t \<le> 2)
           \<and> length (filter (\<lambda>bucket. t \<in> set bucket)
                 [urgent todayTasks, high todayTasks, normal todayTasks]) = 1"
  proof
    fix t assume t: "t \<in> set todayTasks"
    with assms have "priority t = 1 \<or> priority t = 2 \<or> priority t = 3 \<or> priority t = 4"
      by auto
    with t show "(t \<in> set (urgent todayTasks)) = (priority t = 4)
           \<and> (t \<in> set (high todayTasks)) = (priority t = 3)
           \<and> (t \<in> set (normal todayTasks)) = (priority t \<le> 2)
           \<and> length (filter (\<lambda>bucket. t \<in> set bucket)
                 [urgent todayTasks, high todayTasks, normal todayTasks]) = 1"
      by (auto simp: urgent_def high_def normal_def)
  qed
  from cover disj each show ?thesis by blast
qed

theorem daily_buckets_partition_witness:
  "mset (urgent [example_task ''A'' 4 None, example_task ''B'' 1 None])
     + mset (high [example_task ''A'' 4 None, example_task ''B'' 1 None])
     + mset (normal [example_task ''A'' 4 None, example_task ''B'' 1 None])
   = mset [example_task ''A'' 4 None, example_task ''B'' 1 None]
   \<and> urgent [example_task ''A'' 4 None, example_task ''B'' 1 None] = [example_task ''A'' 4 None]
   \<and> normal [example_task ''A'' 4 None, example_task ''B'' 1 None] = [example_task ''B'' 1 None]"
  using daily_buckets_partition [of "[example_task ''A'' 4 None, example_task ''B'' 1 None]"]
  by (simp add: example_task_def urgent_def normal_def)

text \<open>Facts about the rendering of numbers and about a view whose queries succeed.\<close>

lemma digit_not_newline: "d < 10 \<Longrightarrow> digit d \<noteq> 10"
proof -
  assume "d < 10"
  then have "d \<in> {0, 1, 2, 3, 4, 5, 6, 7, 8, 9}" by auto
  then show ?thesis by (auto simp: digit_def)
qed

lemma decimal_no_newline: "10 \<notin> set (decimal n)"
proof (induction n rule: decimal.induct)
  case (1 n)
  show ?case
  proof (cases "n < 10")
    case True
    then show ?thesis using digit_not_newline [of n] by (simp add: decimal.simps [of n])
  next
    case False
    have "n mod 10 < 10" by simp
    then have "digit (n mod 10) \<noteq> 10" by (rule digit_not_newline)
    with False 1 show ?thesis by (simp add: decimal.simps [of n])
  qed
qed

lemma decimal_0: "decimal 0 = js ''0''"
  by (simp add: decimal.simps [of 0] digit_def js_def)

lemma decimal_1: "decimal (Suc 0) = js ''1''"
  by (simp add: decimal.simps [of "Suc 0"] digit_def js_def)

lemma generateDailyPlanningView_ok:
  assumes "getTasksByFilter client (filter_query ''today'') = Inr todayTasks"
    and "getTasksByFilter client (filter_query ''overdue'') = Inr overdueTasks"
  shows "generateDailyPlanningView rt client = Inr (daily_document todayTasks overdueTasks)"
  using assms by (simp add: generateDailyPlanningView_def promise_all2_def)

text \<open>
  Claim C9. For every pair of query results, empty ones included, the daily view ends with
  the summary of the two counts, and the summary is one line (it holds no line feed). For
  no overdue task and the single task \<open>A\<close> of priority 4 today, the document is the title,
  the heading of today's tasks, the urgent heading with the one line \<open>- A\<close>, and the summary
  \<open>0 overdue, 1 today\<close>: it has no overdue section.
\<close>

theorem daily_view_summary:
  assumes "getTasksByFilter client (filter_query ''today'') = Inr todayTasks"
    and "getTasksByFilter client (filter_query ''overdue'') = Inr overdueTasks"
  shows \<open>(\<exists>body. generateDailyPlanningView rt client =
             Inr (body @ js ''**Summary:** '' @ decimal (length overdueTasks) @ js '' overdue, ''
                    @ decimal (length todayTasks) @ js '' today''))
       \<and> 10 \<notin> set (js ''**Summary:** '' @ decimal (length overdueTasks) @ js '' overdue, ''
                    @ decimal (length todayTasks) @ js '' today'')
       \<and> (overdueTasks = [] \<and> todayTasks = [t] \<and> content t = js ''A'' \<and> priority t = 4 \<longrightarrow>
            generateDailyPlanningView rt client =
              Inr (js ''# Daily Planning Overview\<newline>\<newline>## '' @ [0xD83D, 0xDCC5]
                   @ js '' Today's Tasks\<newline>### '' @ [0xD83D, 0xDD34]
                   @ js '' Urgent\<newline>- A\<newline>\<newline>**Summary:** 0 overdue, 1 today''))\<close>
proof -
  have view: "generateDailyPlanningView rt client = Inr (daily_document todayTasks overdueTasks)"
    using assms by (rule generateDailyPlanningView_ok)
  have ends: \<open>\<exists>body. daily_document todayTasks overdueTasks =
             body @ js ''**Summary:** '' @ decimal (length overdueTasks) @ js '' overdue, ''
                    @ decimal (length todayTasks) @ js '' today''\<close>
    by (simp add: daily_document_def Let_def)
  have line: \<open>10 \<notin> set (js ''**Summary:** '' @ decimal (length overdueTasks) @ js '' overdue, ''
                    @ decimal (length todayTasks) @ js '' today'')\<close>
    by (simp add: decimal_no_newline js_def)
  have scenario: \<open>daily_document [t] [] =
      js ''# Daily Planning Overview\<newline>\<newline>## '' @ [0xD83D, 0xDCC5]
        @ js '' Today's Tasks\<newline>### '' @ [0xD83D, 0xDD34]
        @ js '' Urgent\<newline>- A\<newline>\<newline>**Summary:** 0 overdue, 1 today''\<close>
    if "content t = js ''A''" "priority t = 4"
    using that
    by (simp add: daily_document_def Let_def urgent_def high_def normal_def content_lines_def
        decimal_0 decimal_1 js_def)
  from view ends line scenario show ?thesis by auto
qed


theorem daily_view_summary_witness:
  \<open>generateDailyPlanningView example_runtime
      (example_client (\<lambda>a. if a = filter_query ''today'' then Inr [example_task ''A'' 4 None]
                            else Inr [])) =
     Inr (js ''# Daily Planning Overview\<newline>\<newline>## '' @ [0xD83D, 0xDCC5]
          @ js '' Today's Tasks\<newline>### '' @ [0xD83D, 0xDD34]
          @ js '' Urgent\<newline>- A\<newline>\<newline>**Summary:** 0 overdue, 1 today'')\<close>
proof -
  let ?c = "example_client (\<lambda>a. if a = filter_query ''today'' then Inr [example_task ''A'' 4 None]
                            else Inr [])"
  have t: "getTasksByFilter ?c (filter_query ''today'') = Inr [example_task ''A'' 4 None]"
    by (simp add: example_client_def)
  have o: "getTasksByFilter ?c (filter_query ''overdue'') = Inr []"
    by (simp add: example_client_def filter_query_def js_def)
  show ?thesis
    using daily_view_summary [OF t o, of example_runtime "example_task ''A'' 4 None"]
    by (simp add: example_task_def)
qed

text \<open>
  Claim C2. When the overdue query fails, the daily view fails, whatever the today query
  does, and with the failure of one of the two queries; the same holds when the today
  query fails. A document comes back only when both queries succeeded, and is then the
  one built from both results: there is no partial document. A read of the daily resource
  whose view failed returns the text of the failure and nothing of a document, or fails
  itself when the failure does not convert to a text.
\<close>

theorem daily_view_all_or_nothing:
  "(\<forall>e. getTasksByFilter client (filter_query ''overdue'') = Inl e \<longrightarrow>
      (\<exists>e'. generateDailyPlanningView rt client = Inl e'
          \<and> (e' = e \<or> getTasksByFilter client (filter_query ''today'') = Inl e')))
   \<and> (\<forall>e. getTasksByFilter client (filter_query ''today'') = Inl e \<longrightarrow>
      (\<exists>e'. generateDailyPlanningView rt client = Inl e'
          \<and> (e' = e \<or> getTasksByFilter client (filter_query ''overdue'') = Inl e')))
   \<and> (\<forall>doc. generateDailyPlanningView rt client = Inr doc \<longrightarrow>
      (\<exists>todayTasks overdueTasks.
          getTasksByFilter client (filter_query ''today'') = Inr todayTasks
        \<and> getTasksByFilter client (filter_query ''overdue'') = Inr overdueTasks
        \<and> doc = daily_document todayTasks overdueTasks))
   \<and> (\<forall>message. generateDailyPlanningView rt client = Inl (ErrorInstance message) \<longrightarrow>
      ReadResource_handler rt client (js ''todoist://planning/daily'') =
        Inr [\<lparr>uri = js ''todoist://planning/daily'', mimeType = js ''text/markdown'',
              resource_text = js ''Error: '' @ message\<rparr>])
   \<and> (\<forall>s. generateDailyPlanningView rt client = Inl (ThrownValue s) \<longrightarrow>
      ReadResource_handler rt client (js ''todoist://planning/daily'') =
        Inr [\<lparr>uri = js ''todoist://planning/daily'', mimeType = js ''text/markdown'',
              resource_text = js ''Error: '' @ s\<rparr>])
   \<and> (\<forall>thrown. generateDailyPlanningView rt client = Inl (Unconvertible thrown) \<longrightarrow>
      ReadResource_handler rt client (js ''todoist://planning/daily'') = Inl thrown)"
proof -
  have overdue: "\<forall>e. getTasksByFilter client (filter_query ''overdue'') = Inl e \<longrightarrow>
      (\<exists>e'. generateDailyPlanningView rt client = Inl e'
          \<and> (e' = e \<or> getTasksByFilter client (filter_query ''today'') = Inl e'))"
    by (auto simp: generateDailyPlanningView_def promise_all2_def split: sum.splits)
  have today: "\<forall>e. getTasksByFilter client (filter_query ''today'') = Inl e \<longrightarrow>
      (\<exists>e'. generateDailyPlanningView rt client = Inl e'
          \<and> (e' = e \<or> getTasksByFilter client (filter_query ''overdue'') = Inl e'))"
    by (auto simp: generateDailyPlanningView_def promise_all2_def split: sum.splits)
  have whole: "\<forall>doc. generateDailyPlanningView rt client = Inr doc \<longrightarrow>
      (\<exists>todayTasks overdueTasks.
          getTasksByFilter client (filter_query ''today'') = Inr todayTasks
        \<and> getTasksByFilter client (filter_query ''overdue'') = Inr overdueTasks
        \<and> doc = daily_document todayTasks overdueTasks)"
    by (auto simp: generateDailyPlanningView_def promise_all2_def split: sum.splits)
  have err: "\<forall>message. generateDailyPlanningView rt client = Inl (ErrorInstance message) \<longrightarrow>
      ReadResource_handler rt client (js ''todoist://planning/daily'') =
        Inr [\<lparr>uri = js ''todoist://planning/daily'', mimeType = js ''text/markdown'',
              resource_text = js ''Error: '' @ message\<rparr>]"
    by (simp add: ReadResource_handler_def)
  have other: "\<forall>s. generateDailyPlanningView rt client = Inl (ThrownValue s) \<longrightarrow>
      ReadResource_handler rt client (js ''todoist://planning/daily'') =
        Inr [\<lparr>uri = js ''todoist://planning/daily'', mimeType = js ''text/markdown'',
              resource_text = js ''Error: '' @ s\<rparr>]"
    by (simp add: ReadResource_handler_def)
  have thrown: "\<forall>thrown. generateDailyPlanningView rt client = Inl (Unconvertible thrown) \<longrightarrow>
      ReadResource_handler rt client (js ''todoist://planning/daily'') = Inl thrown"
    by (simp add: ReadResource_handler_def)
  from overdue today whole err other thrown show ?thesis by (intro conjI)
qed

theorem daily_view_all_or_nothing_witness:
  "getTasksByFilter
     (example_client (\<lambda>a. if a = filter_query ''overdue'' then Inl offline
                           else Inr [example_task ''A'' 4 None]))
     (filter_query ''today'') = Inr [example_task ''A'' 4 None]
   \<and> generateDailyPlanningView example_runtime
       (example_client (\<lambda>a. if a = filter_query ''overdue'' then Inl offline
                             else Inr [example_task ''A'' 4 None])) = Inl offline
   \<and> ReadResource_handler example_runtime
       (example_client (\<lambda>a. if a = filter_query ''overdue'' then Inl offline
                             else Inr [example_task ''A'' 4 None]))
       (js ''todoist://planning/daily'') =
      Inr [\<lparr>uri = js ''todoist://planning/daily'', mimeType = js ''text/markdown'',
            resource_text = js ''Error: offline''\<rparr>]"
proof -
  let ?c = "example_client (\<lambda>a. if a = filter_query ''overdue'' then Inl offline
                           else Inr [example_task ''A'' 4 None])"
  note all = daily_view_all_or_nothing [of ?c example_runtime]
  have o: "getTasksByFilter ?c (filter_query ''overdue'') = Inl offline"
    by (simp add: example_client_def)
  have t: "getTasksByFilter ?c (filter_query ''today'') = Inr [example_task ''A'' 4 None]"
    by (simp add: example_client_def filter_query_def js_def)
  from all o
  obtain e' where "generateDailyPlanningView example_runtime ?c = Inl e'"
    and "e' = offline \<or> getTasksByFilter ?c (filter_query ''today'') = Inl e'"
    by blast
  with t have view: "generateDailyPlanningView example_runtime ?c = Inl offline" by simp
  then have "generateDailyPlanningView example_runtime ?c = Inl (ErrorInstance (js ''offline''))"
    by (simp add: offline_def)
  with all have "ReadResource_handler example_runtime ?c (js ''todoist://planning/daily'') =
      Inr [\<lparr>uri = js ''todoist://planning/daily'', mimeType = js ''text/markdown'',
            resource_text = js ''Error: '' @ js ''offline''\<rparr>]"
    by blast
  then have "ReadResource_handler example_runtime ?c (js ''todoist://planning/daily'') =
      Inr [\<lparr>uri = js ''todoist://planning/daily'', mimeType = js ''text/markdown'',
            resource_text = js ''Error: offline''\<rparr>]"
    by (simp add: js_def)
  with t view show ?thesis by blast
qed

section \<open>The weekly view\<close>

text \<open>
  The order of strings that \<open>sort\<close> uses here is the lexicographic order of their code
  units, compared as unsigned numbers.
\<close>

lemma ustring_less_lexicographic:
  "((xs :: ustring) < ys) = ((xs, ys) \<in> lexord {(u, v). unat u < unat v})"
  by (simp add: list_less_def word_less_nat_alt)

text \<open>The grouping by date, the loop over the sorted dates, and the document they give.\<close>

lemma map_of_append_values:
  "map_of (map (\<lambda>(k, v). if k = key then (k, v @ [x]) else (k, v)) ps) k' =
     (if k' = key then map_option (\<lambda>v. v @ [x]) (map_of ps k') else map_of ps k')"
  by (induction ps) auto

lemma keys_append_values:
  "map fst (map (\<lambda>(k, v). if k = key then (k, v @ [x]) else (k, v)) ps) = map fst ps"
  by (induction ps) auto

lemma group_task_Inr:
  assumes "group_task tbd t = Inr tbd'" and "distinct (map fst tbd)"
  shows "distinct (map fst tbd')"
    and "set (map fst tbd') = set (map fst tbd) \<union> set (task_dates [t])"
    and "tasks_under tbd' k = tasks_under tbd k @ tasks_on k [t]"
proof -
  have "distinct (map fst tbd')
      \<and> set (map fst tbd') = set (map fst tbd) \<union> set (task_dates [t])
      \<and> tasks_under tbd' k = tasks_under tbd k @ tasks_on k [t]"
  proof (cases "due t")
    case None
    with assms show ?thesis
      by (simp add: group_task_def task_dates_def tasks_on_def)
  next
    case (Some d)
    show ?thesis
    proof (cases "map_of tbd (due_date d)")
      case None
      with Some assms(1) have eq: "tbd' = tbd @ [(due_date d, [t])]"
        by (simp add: group_task_def Let_def split: if_splits)
      from None have fresh: "due_date d \<notin> set (map fst tbd)"
        by (simp add: map_of_eq_None_iff)
      have vals: "tasks_under tbd' k = tasks_under tbd k @ tasks_on k [t]"
        using None \<open>due t = Some d\<close>
        by (cases "k = due_date d")
          (simp_all add: eq tasks_under_def tasks_on_def map_add_def split: option.splits)
      from eq fresh assms(2) \<open>due t = Some d\<close> vals show ?thesis
        by (simp add: task_dates_def)
    next
      case (Some ts)
      with \<open>due t = Some d\<close> assms(1)
      have eq: "tbd' = map (\<lambda>(k, v). if k = due_date d then (k, v @ [t]) else (k, v)) tbd"
        by (simp add: group_task_def Let_def split: if_splits)
      from Some have old: "due_date d \<in> set (map fst tbd)"
        by (metis map_of_eq_None_iff option.distinct(1) set_map)
      have keys: "map fst tbd' = map fst tbd"
        unfolding eq by (rule keys_append_values)
      have vals: "tasks_under tbd' k = tasks_under tbd k @ tasks_on k [t]"
        using Some \<open>due t = Some d\<close>
        by (cases "k = due_date d")
          (auto simp: eq tasks_under_def tasks_on_def map_of_append_values
            split: option.splits)
      from keys old assms(2) vals \<open>due t = Some d\<close> show ?thesis
        by (auto simp: task_dates_def)
    qed
  qed
  then show "distinct (map fst tbd')"
    and "set (map fst tbd') = set (map fst tbd) \<union> set (task_dates [t])"
    and "tasks_under tbd' k = tasks_under tbd k @ tasks_on k [t]"
    by simp_all
qed

lemma group_by_date_Inr:
  assumes "group_by_date ts tbd = Inr tbd'" and "distinct (map fst tbd)"
  shows "distinct (map fst tbd')
       \<and> set (map fst tbd') = set (map fst tbd) \<union> set (task_dates ts)
       \<and> (\<forall>k. tasks_under tbd' k = tasks_under tbd k @ tasks_on k ts)"
  using assms
proof (induction ts arbitrary: tbd)
  case Nil
  then show ?case by (simp add: task_dates_def tasks_on_def)
next
  case (Cons t ts)
  from Cons.prems(1) obtain mid where mid: "group_task tbd t = Inr mid"
    and rest: "group_by_date ts mid = Inr tbd'"
    by (auto split: sum.splits)
  note step = group_task_Inr [OF mid Cons.prems(2)]
  from Cons.IH [OF rest step(1)]
  have ih: "distinct (map fst tbd')"
    "set (map fst tbd') = set (map fst mid) \<union> set (task_dates ts)"
    "\<And>k. tasks_under tbd' k = tasks_under mid k @ tasks_on k ts"
    by auto
  have keys: "set (map fst tbd') = set (map fst tbd) \<union> set (task_dates (t # ts))"
    using ih(2) step(2) by (auto simp: task_dates_def)
  have vals: "tasks_under tbd' k = tasks_under tbd k @ tasks_on k (t # ts)" for k
    using ih(3) [of k] step(3) [of k] by (simp add: tasks_on_def)
  from ih(1) keys vals show ?case by blast
qed

lemma group_by_date_succeeds:
  assumes "set (task_dates ts) \<inter> set object_prototype_names = {}"
  shows "\<exists>tbd'. group_by_date ts tbd = Inr tbd'"
  using assms
proof (induction ts arbitrary: tbd)
  case Nil
  show ?case by simp
next
  case (Cons t ts)
  from Cons.prems have here: "set (task_dates [t]) \<inter> set object_prototype_names = {}"
    and later: "set (task_dates ts) \<inter> set object_prototype_names = {}"
    by (auto simp: task_dates_def)
  have "\<exists>mid. group_task tbd t = Inr mid"
  proof (cases "due t")
    case None
    then show ?thesis by (simp add: group_task_def)
  next
    case (Some d)
    with here have "due_date d \<notin> set object_prototype_names"
      by (simp add: task_dates_def)
    with Some show ?thesis
      by (simp add: group_task_def Let_def split: option.splits)
  qed
  then obtain mid where "group_task tbd t = Inr mid" by blast
  with Cons.IH [OF later, of mid] show ?case by simp
qed

lemma render_dates_Inr:
  assumes "set dates \<subseteq> set (map fst tbd)"
  shows "render_dates rt tbd dates c =
    Inr (c @ concat (map (\<lambda>date. date_heading rt date @ content_lines (tasks_under tbd date)
                                    @ js ''\<newline>\<newline>'') dates))"
  using assms
proof (induction dates arbitrary: c)
  case Nil
  show ?case by simp
next
  case (Cons d ds)
  then have "d \<in> fst ` set tbd" by simp
  then obtain ts where ts: "map_of tbd d = Some ts"
    by (metis map_of_eq_None_iff not_Some_eq)
  from Cons have "set ds \<subseteq> set (map fst tbd)" by simp
  from Cons.IH [OF this] ts show ?case by (simp add: tasks_under_def)
qed

lemma weekly_document_eq:
  assumes "weekTasks \<noteq> []"
    and "set (task_dates weekTasks) \<inter> set object_prototype_names = {}"
  shows "\<exists>tasksByDate. group_by_date weekTasks [] = Inr tasksByDate
     \<and> sortedDates tasksByDate = sorted_list_of_set (set (task_dates weekTasks))
     \<and> weekly_document rt weekTasks =
        Inr (js ''# Weekly Planning Overview\<newline>\<newline>''
             @ concat (map (\<lambda>date. date_heading rt date @ content_lines (tasks_on date weekTasks)
                                     @ js ''\<newline>\<newline>'')
                         (sortedDates tasksByDate))
             @ js ''**Total this week:** '' @ decimal (length weekTasks) @ js '' tasks'')"
proof -
  from group_by_date_succeeds [OF assms(2)]
  obtain tbd where tbd: "group_by_date weekTasks [] = Inr tbd" by blast
  from group_by_date_Inr [OF tbd]
  have d: "distinct (map fst tbd)"
    and k: "set (map fst tbd) = set (task_dates weekTasks)"
    and v: "\<And>k. tasks_under tbd k = tasks_on k weekTasks"
    by (auto simp: tasks_under_def)
  have sd: "sortedDates tbd = sorted_list_of_set (set (task_dates weekTasks))"
    using d k by (metis sortedDates_def sorted_list_of_set_sort_remdups distinct_remdups_id)
  have "set (sortedDates tbd) \<subseteq> set (map fst tbd)"
    by (simp add: sortedDates_def)
  from render_dates_Inr [OF this]
  have "weekly_document rt weekTasks =
        Inr (js ''# Weekly Planning Overview\<newline>\<newline>''
             @ concat (map (\<lambda>date. date_heading rt date @ content_lines (tasks_on date weekTasks)
                                     @ js ''\<newline>\<newline>'')
                         (sortedDates tbd))
             @ js ''**Total this week:** '' @ decimal (length weekTasks) @ js '' tasks'')"
    using assms(1) tbd by (simp add: weekly_document_def v)
  with tbd sd show ?thesis by blast
qed


lemma set_task_dates:
  "set (task_dates ts) = (\<Union>t \<in> set ts. case due t of None \<Rightarrow> {} | Some d \<Rightarrow> {due_date d})"
  by (induction ts) (auto simp: task_dates_def split: option.splits)

lemma generateWeeklyPlanningView_ok:
  assumes "getTasksByFilter client (filter_query ''7 days'') = Inr weekTasks"
  shows "generateWeeklyPlanningView rt client = weekly_document rt weekTasks"
  using assms by (simp add: generateWeeklyPlanningView_def)

lemma task_lines_count:
  assumes "distinct dates" and "set (task_dates ts) \<subseteq> set dates"
  shows "sum_list (map (\<lambda>date. length (tasks_on date ts)) dates)
           = length (filter (\<lambda>t. due t \<noteq> None) ts)"
  using assms(2)
proof (induction ts)
  case Nil
  show ?case by (simp add: tasks_on_def)
next
  case (Cons t ts)
  from Cons.prems have sub: "set (task_dates ts) \<subseteq> set dates"
    by (auto simp: task_dates_def)
  note ih = Cons.IH [OF sub]
  show ?case
  proof (cases "due t")
    case None
    then have "tasks_on date (t # ts) = tasks_on date ts" for date
      by (simp add: tasks_on_def)
    with ih None show ?thesis by simp
  next
    case (Some d)
    with Cons.prems have mem: "due_date d \<in> set dates"
      by (simp add: task_dates_def)
    have one: "sum_list (map (\<lambda>date. if due_date d = date then 1 else 0) dates) = (1::nat)"
      using assms(1) mem
    proof (induction dates)
      case Nil
      then show ?case by simp
    next
      case (Cons x xs)
      show ?case
      proof (cases "due_date d = x")
        case True
        with Cons.prems have "due_date d \<notin> set xs" by simp
        then have "sum_list (map (\<lambda>date. if due_date d = date then 1 else 0) xs) = (0::nat)"
          by (induction xs) auto
        with True show ?thesis by simp
      next
        case False
        with Cons show ?thesis by simp
      qed
    qed
    have "length (tasks_on date (t # ts))
            = (if due_date d = date then 1 else 0) + length (tasks_on date ts)" for date
      using Some by (simp add: tasks_on_def)
    then have "sum_list (map (\<lambda>date. length (tasks_on date (t # ts))) dates)
        = sum_list (map (\<lambda>date. if due_date d = date then 1 else 0) dates)
          + sum_list (map (\<lambda>date. length (tasks_on date ts)) dates)"
      by (simp add: sum_list_addf)
    with one ih Some show ?thesis by simp
  qed
qed

lemma decimal_2: "decimal (Suc (Suc 0)) = js ''2''"
  by (simp add: decimal.simps [of "Suc (Suc 0)"] digit_def js_def)

text \<open>
  Claim C3. For every non-empty result of the weekly query whose date keys are not names
  that every object inherits, the weekly view renders one section per date key, in
  strictly ascending lexicographic order of the keys. The order is the sorted list of the
  set of date keys, so it is a function of that set alone: for every permutation of the
  task list the grouping yields the same sorted keys and the document has its sections in
  the same order.
\<close>

theorem weekly_sections_sorted:
  assumes "getTasksByFilter client (filter_query ''7 days'') = Inr weekTasks"
    and "weekTasks \<noteq> []"
    and "set (task_dates weekTasks) \<inter> set object_prototype_names = {}"
  shows "\<exists>dates.
      generateWeeklyPlanningView rt client =
        Inr (js ''# Weekly Planning Overview\<newline>\<newline>''
             @ concat (map (\<lambda>date. date_heading rt date @ content_lines (tasks_on date weekTasks)
                                     @ js ''\<newline>\<newline>'') dates)
             @ js ''**Total this week:** '' @ decimal (length weekTasks) @ js '' tasks'')
    \<and> dates = sorted_list_of_set (set (task_dates weekTasks))
    \<and> sorted_wrt (<) dates
    \<and> set dates = set (task_dates weekTasks)
    \<and> (\<forall>weekTasks'. mset weekTasks' = mset weekTasks \<longrightarrow>
          (\<exists>tasksByDate. group_by_date weekTasks' [] = Inr tasksByDate
              \<and> sortedDates tasksByDate = dates)
        \<and> weekly_document rt weekTasks' =
            Inr (js ''# Weekly Planning Overview\<newline>\<newline>''
                 @ concat (map (\<lambda>date. date_heading rt date
                                  @ content_lines (tasks_on date weekTasks')
                                  @ js ''\<newline>\<newline>'') dates)
                 @ js ''**Total this week:** '' @ decimal (length weekTasks') @ js '' tasks''))"
proof -
  let ?dates = "sorted_list_of_set (set (task_dates weekTasks))"
  from weekly_document_eq [OF assms(2,3), of rt]
  have doc: "weekly_document rt weekTasks =
        Inr (js ''# Weekly Planning Overview\<newline>\<newline>''
             @ concat (map (\<lambda>date. date_heading rt date @ content_lines (tasks_on date weekTasks)
                                     @ js ''\<newline>\<newline>'') ?dates)
             @ js ''**Total this week:** '' @ decimal (length weekTasks) @ js '' tasks'')"
    by auto
  have view: "generateWeeklyPlanningView rt client = weekly_document rt weekTasks"
    using assms(1) by (rule generateWeeklyPlanningView_ok)
  have asc: "sorted_wrt (<) ?dates" by (rule strict_sorted_list_of_set)
  have keys: "set ?dates = set (task_dates weekTasks)" by simp
  have perm: "(\<exists>tasksByDate. group_by_date weekTasks' [] = Inr tasksByDate
              \<and> sortedDates tasksByDate = ?dates)
        \<and> weekly_document rt weekTasks' =
            Inr (js ''# Weekly Planning Overview\<newline>\<newline>''
                 @ concat (map (\<lambda>date. date_heading rt date
                                  @ content_lines (tasks_on date weekTasks')
                                  @ js ''\<newline>\<newline>'') ?dates)
                 @ js ''**Total this week:** '' @ decimal (length weekTasks') @ js '' tasks'')"
    if p: "mset weekTasks' = mset weekTasks" for weekTasks'
  proof -
    from p have "set weekTasks' = set weekTasks" by (rule mset_eq_setD)
    then have same: "set (task_dates weekTasks') = set (task_dates weekTasks)"
      by (simp add: set_task_dates)
    from p assms(2) have ne: "weekTasks' \<noteq> []" by auto
    from same assms(3)
    have ok: "set (task_dates weekTasks') \<inter> set object_prototype_names = {}" by simp
    from weekly_document_eq [OF ne ok, of rt] same show ?thesis by auto
  qed
  from doc view asc keys perm show ?thesis by simp
qed

theorem weekly_sections_sorted_witness:
  "generateWeeklyPlanningView example_runtime
     (example_client (\<lambda>a. Inr [example_task ''B'' 1 (Some ''2024-05-02''),
                                 example_task ''A'' 1 (Some ''2024-05-01'')])) =
   Inr (js ''# Weekly Planning Overview\<newline>\<newline>## Someday, 2024-05-01 (Today)\<newline>- A\<newline>\<newline>## Someday, 2024-05-02\<newline>- B\<newline>\<newline>**Total this week:** 2 tasks'')
   \<and> weekly_document example_runtime
       [example_task ''A'' 1 (Some ''2024-05-01''), example_task ''B'' 1 (Some ''2024-05-02'')] =
   Inr (js ''# Weekly Planning Overview\<newline>\<newline>## Someday, 2024-05-01 (Today)\<newline>- A\<newline>\<newline>## Someday, 2024-05-02\<newline>- B\<newline>\<newline>**Total this week:** 2 tasks'')"
proof -
  let ?L = "[example_task ''B'' 1 (Some ''2024-05-02''),
             example_task ''A'' 1 (Some ''2024-05-01'')]"
  let ?L' = "[example_task ''A'' 1 (Some ''2024-05-01''),
              example_task ''B'' 1 (Some ''2024-05-02'')]"
  let ?c = "example_client (\<lambda>a. Inr ?L)"
  have q: "getTasksByFilter ?c (filter_query ''7 days'') = Inr ?L"
    by (simp add: example_client_def)
  have ne: "?L \<noteq> []" by simp
  have ok: "set (task_dates ?L) \<inter> set object_prototype_names = {}"
    by (simp add: task_dates_def example_task_def object_prototype_names_def js_def)
  have p: "mset ?L' = mset ?L" by simp
  have dates: "sorted_list_of_set (set (task_dates ?L)) = [js ''2024-05-01'', js ''2024-05-02'']"
    by code_simp
  from weekly_sections_sorted [OF q ne ok, of example_runtime] p
  have view: "generateWeeklyPlanningView example_runtime ?c =
        Inr (js ''# Weekly Planning Overview\<newline>\<newline>''
             @ concat (map (\<lambda>date. date_heading example_runtime date
                              @ content_lines (tasks_on date ?L) @ js ''\<newline>\<newline>'')
                         [js ''2024-05-01'', js ''2024-05-02''])
             @ js ''**Total this week:** '' @ decimal (length ?L) @ js '' tasks'')"
    and other: "weekly_document example_runtime ?L' =
        Inr (js ''# Weekly Planning Overview\<newline>\<newline>''
             @ concat (map (\<lambda>date. date_heading example_runtime date
                              @ content_lines (tasks_on date ?L') @ js ''\<newline>\<newline>'')
                         [js ''2024-05-01'', js ''2024-05-02''])
             @ js ''**Total this week:** '' @ decimal (length ?L') @ js '' tasks'')"
    unfolding dates by blast+
  from view have one: "generateWeeklyPlanningView example_runtime ?c =
      Inr (js ''# Weekly Planning Overview\<newline>\<newline>## Someday, 2024-05-01 (Today)\<newline>- A\<newline>\<newline>## Someday, 2024-05-02\<newline>- B\<newline>\<newline>**Total this week:** 2 tasks'')"
    by (simp add: date_heading_def example_runtime_def tasks_on_def example_task_def
        content_lines_def decimal_2 js_def)
  from other have two: "weekly_document example_runtime ?L' =
      Inr (js ''# Weekly Planning Overview\<newline>\<newline>## Someday, 2024-05-01 (Today)\<newline>- A\<newline>\<newline>## Someday, 2024-05-02\<newline>- B\<newline>\<newline>**Total this week:** 2 tasks'')"
    by (simp add: date_heading_def example_runtime_def tasks_on_def example_task_def
        content_lines_def decimal_2 js_def)
  from one two show ?thesis by blast
qed

text \<open>
  Claim C10. For every non-empty result of the weekly query (with date keys as in C3), the
  last line of the weekly view reports the length of the whole result. The task lines of
  the date sections number the tasks that have a due date, so a task without one is
  counted in the total and rendered nowhere: when there is such a task, the total exceeds
  the number of task lines.
\<close>

theorem weekly_total_counts_every_task:
  assumes "getTasksByFilter client (filter_query ''7 days'') = Inr weekTasks"
    and "weekTasks \<noteq> []"
    and "set (task_dates weekTasks) \<inter> set object_prototype_names = {}"
  shows "\<exists>dates.
      generateWeeklyPlanningView rt client =
        Inr (js ''# Weekly Planning Overview\<newline>\<newline>''
             @ concat (map (\<lambda>date. date_heading rt date @ content_lines (tasks_on date weekTasks)
                                     @ js ''\<newline>\<newline>'') dates)
             @ js ''**Total this week:** '' @ decimal (length weekTasks) @ js '' tasks'')
    \<and> dates = sorted_list_of_set (set (task_dates weekTasks))
    \<and> sum_list (map (\<lambda>date. length (tasks_on date weekTasks)) dates)
          = length (filter (\<lambda>t. due t \<noteq> None) weekTasks)
    \<and> sum_list (map (\<lambda>date. length (tasks_on date weekTasks)) dates) \<le> length weekTasks
    \<and> ((\<exists>t \<in> set weekTasks. due t = None) \<longrightarrow>
          sum_list (map (\<lambda>date. length (tasks_on date weekTasks)) dates) < length weekTasks)"
proof -
  let ?dates = "sorted_list_of_set (set (task_dates weekTasks))"
  let ?lines = "sum_list (map (\<lambda>date. length (tasks_on date weekTasks)) ?dates)"
  from weekly_document_eq [OF assms(2,3), of rt]
  have doc: "weekly_document rt weekTasks =
        Inr (js ''# Weekly Planning Overview\<newline>\<newline>''
             @ concat (map (\<lambda>date. date_heading rt date @ content_lines (tasks_on date weekTasks)
                                     @ js ''\<newline>\<newline>'') ?dates)
             @ js ''**Total this week:** '' @ decimal (length weekTasks) @ js '' tasks'')"
    by auto
  have "generateWeeklyPlanningView rt client = weekly_document rt weekTasks"
    using assms(1) by (rule generateWeeklyPlanningView_ok)
  with doc have view: "generateWeeklyPlanningView rt client =
        Inr (js ''# Weekly Planning Overview\<newline>\<newline>''
             @ concat (map (\<lambda>date. date_heading rt date @ content_lines (tasks_on date weekTasks)
                                     @ js ''\<newline>\<newline>'') ?dates)
             @ js ''**Total this week:** '' @ decimal (length weekTasks) @ js '' tasks'')"
    by simp
  have lines: "?lines = length (filter (\<lambda>t. due t \<noteq> None) weekTasks)"
    by (rule task_lines_count) simp_all
  have "length (filter (\<lambda>t. due t \<noteq> None) weekTasks) \<le> length weekTasks"
    by (rule length_filter_le)
  with lines have le: "?lines \<le> length weekTasks" by simp
  have less: "(\<exists>t \<in> set weekTasks. due t = None) \<longrightarrow> ?lines < length weekTasks"
  proof
    assume "\<exists>t \<in> set weekTasks. due t = None"
    then have "length (filter (\<lambda>t. due t \<noteq> None) weekTasks) < length weekTasks"
      by (auto intro: length_filter_less)
    with lines show "?lines < length weekTasks" by simp
  qed
  from view lines le less show ?thesis by blast
qed

theorem weekly_total_counts_every_task_witness:
  "generateWeeklyPlanningView example_runtime
     (example_client (\<lambda>a. Inr [example_task ''A'' 1 (Some ''2024-05-01''),
                                 example_task ''B'' 1 None])) =
   Inr (js ''# Weekly Planning Overview\<newline>\<newline>## Someday, 2024-05-01 (Today)\<newline>- A\<newline>\<newline>**Total this week:** 2 tasks'')
   \<and> sum_list (map (\<lambda>date. length (tasks_on date
          [example_task ''A'' 1 (Some ''2024-05-01''), example_task ''B'' 1 None]))
        [js ''2024-05-01''])
       < length [example_task ''A'' 1 (Some ''2024-05-01''), example_task ''B'' 1 None]"
proof -
  let ?L = "[example_task ''A'' 1 (Some ''2024-05-01''), example_task ''B'' 1 None]"
  let ?c = "example_client (\<lambda>a. Inr ?L)"
  have q: "getTasksByFilter ?c (filter_query ''7 days'') = Inr ?L"
    by (simp add: example_client_def)
  have ne: "?L \<noteq> []" by simp
  have ok: "set (task_dates ?L) \<inter> set object_prototype_names = {}"
    by (simp add: task_dates_def example_task_def object_prototype_names_def js_def)
  have none: "\<exists>t \<in> set ?L. due t = None"
    by (simp add: example_task_def)
  have dates: "sorted_list_of_set (set (task_dates ?L)) = [js ''2024-05-01'']"
    by code_simp
  from weekly_total_counts_every_task [OF q ne ok, of example_runtime] none
  have view: "generateWeeklyPlanningView example_runtime ?c =
        Inr (js ''# Weekly Planning Overview\<newline>\<newline>''
             @ concat (map (\<lambda>date. date_heading example_runtime date
                              @ content_lines (tasks_on date ?L) @ js ''\<newline>\<newline>'')
                         [js ''2024-05-01''])
             @ js ''**Total this week:** '' @ decimal (length ?L) @ js '' tasks'')"
    and fewer: "sum_list (map (\<lambda>date. length (tasks_on date ?L)) [js ''2024-05-01''])
        < length ?L"
    unfolding dates by blast+
  from view have "generateWeeklyPlanningView example_runtime ?c =
     Inr (js ''# Weekly Planning Overview\<newline>\<newline>## Someday, 2024-05-01 (Today)\<newline>- A\<newline>\<newline>**Total this week:** 2 tasks'')"
    by (simp add: date_heading_def example_runtime_def tasks_on_def example_task_def
        content_lines_def decimal_2 js_def)
  with fewer show ?thesis by blast
qed

section \<open>The dispatcher of tool calls\<close>

text \<open>The branch of the \<open>switch\<close> a name selects.\<close>

lemma tool_switch_unknown:
  "name \<notin> set tool_names \<Longrightarrow>
     tool_switch rt client name a = Inl (ErrorInstance (js ''Unknown tool: '' @ name))"
  by (simp add: tool_names_def tool_switch_def)

lemma tool_switch_known:
  "tool_switch rt client (js ''todoist_add_task'') a = addTask_tool client a"
  "tool_switch rt client (js ''todoist_get_tasks'') a = getTasks_tool client a"
  "tool_switch rt client (js ''todoist_get_tasks_by_filter'') a = getTasksByFilter_tool rt client a"
  "tool_switch rt client (js ''todoist_update_task'') a = updateTask_tool client a"
  "tool_switch rt client (js ''todoist_close_task'') a = closeTask_tool rt client a"
  "tool_switch rt client (js ''todoist_reopen_task'') a = reopenTask_tool rt client a"
  "tool_switch rt client (js ''todoist_delete_task'') a = deleteTask_tool rt client a"
  "tool_switch rt client (js ''todoist_get_projects'') a = getProjects_tool client"
  "tool_switch rt client (js ''todoist_quick_add_task'') a = quickAddTask_tool client a"
  by (simp_all add: tool_switch_def js_def)






section \<open>The filter tool without results\<close>

text \<open>
  Claim C4, as stated: when the remote query of the filter tool returns no task, the one
  text block of the response names the filter that was used. The tool of the full server
  answers every empty result with the same fixed sentence: for the filter \<open>overdue\<close> its
  text does not hold the filter.
\<close>

theorem filter_no_results_counterexample:
  \<open>CallTool_handler example_runtime (example_client (\<lambda>a. Inr []))
     (js ''todoist_get_tasks_by_filter'') (filter_query ''overdue'') =
     Inr \<lparr>content_blocks =
            [\<lparr>block_type = js ''text'',
              block_text = js ''No tasks found matching the filter.''\<rparr>],
          isError = None\<rparr>
   \<and> \<not> sublist (js ''overdue'') (js ''No tasks found matching the filter.'')\<close>
proof -
  have "CallTool_handler example_runtime (example_client (\<lambda>a. Inr []))
     (js ''todoist_get_tasks_by_filter'') (filter_query ''overdue'') =
     Inr \<lparr>content_blocks =
            [\<lparr>block_type = js ''text'',
              block_text = js ''No tasks found matching the filter.''\<rparr>],
          isError = None\<rparr>"
    by (simp add: CallTool_handler_def tool_switch_known getTasksByFilter_tool_def
        text_result_def example_client_def)
  moreover have "\<not> sublist (js ''overdue'') (js ''No tasks found matching the filter.'')"
    by code_simp
  ultimately show ?thesis by blast
qed

text \<open>
  Claim C4, amended. When the remote query returns no task, both implementations of the
  filter tool return exactly one text block and leave \<open>isError\<close> unset. The handler of the
  single-tool server names the filter: its text is \<open>No tasks found matching filter: \<close>
  followed by the filter in double quotes, also when it is reached through the validation
  of the arguments. The tool of the full server returns the fixed text
  \<open>No tasks found matching the filter.\<close>, whatever the filter.
\<close>

theorem filter_no_results_message:
  \<open>(\<forall>query lang.
       getTasks client
         (Some [(js ''filter'', JStr query),
                (js ''lang'', (case lang of None \<Rightarrow> JUndefined | Some l \<Rightarrow> JStr l))]) = Inr [] \<longrightarrow>
       todoist_get_tasks_by_filter client query lang =
         Inr \<lparr>content_blocks =
                [\<lparr>block_type = js ''text'',
                  block_text = js ''No tasks found matching filter: "'' @ query @ js ''"''\<rparr>],
              isError = None\<rparr>)
   \<and> (\<forall>obj query.
         schema_accepts server_filter_inputSchema (Some obj)
       \<and> string_arg obj ''query'' = Some query
       \<and> getTasks client
           (Some [(js ''filter'', JStr query),
                  (js ''lang'', (case string_arg obj ''lang'' of
                                   None \<Rightarrow> JUndefined | Some l \<Rightarrow> JStr l))]) = Inr [] \<longrightarrow>
       server_tool_call client (Some obj) =
         Invoked (Inr \<lparr>content_blocks =
                [\<lparr>block_type = js ''text'',
                  block_text = js ''No tasks found matching filter: "'' @ query @ js ''"''\<rparr>],
              isError = None\<rparr>))
   \<and> (\<forall>a. getTasksByFilter client a = Inr [] \<longrightarrow>
       CallTool_handler rt client (js ''todoist_get_tasks_by_filter'') a =
         Inr \<lparr>content_blocks =
                [\<lparr>block_type = js ''text'',
                  block_text = js ''No tasks found matching the filter.''\<rparr>],
              isError = None\<rparr>)\<close>
proof -
  have server: \<open>todoist_get_tasks_by_filter client query lang =
         Inr \<lparr>content_blocks =
                [\<lparr>block_type = js ''text'',
                  block_text = js ''No tasks found matching filter: "'' @ query @ js ''"''\<rparr>],
              isError = None\<rparr>\<close>
    if "getTasks client
         (Some [(js ''filter'', JStr query),
                (js ''lang'', (case lang of None \<Rightarrow> JUndefined | Some l \<Rightarrow> JStr l))]) = Inr []"
    for query lang
    using that by (simp add: todoist_get_tasks_by_filter_def text_result_def)
  have call: \<open>server_tool_call client (Some obj) =
         Invoked (Inr \<lparr>content_blocks =
                [\<lparr>block_type = js ''text'',
                  block_text = js ''No tasks found matching filter: "'' @ query @ js ''"''\<rparr>],
              isError = None\<rparr>)\<close>
    if "schema_accepts server_filter_inputSchema (Some obj)"
      and "string_arg obj ''query'' = Some query"
      and "getTasks client
           (Some [(js ''filter'', JStr query),
                  (js ''lang'', (case string_arg obj ''lang'' of
                                   None \<Rightarrow> JUndefined | Some l \<Rightarrow> JStr l))]) = Inr []"
    for obj query
    using that server [of query "string_arg obj ''lang''"]
    by (simp add: server_tool_call_def)
  have listed: \<open>CallTool_handler rt client (js ''todoist_get_tasks_by_filter'') a =
         Inr \<lparr>content_blocks =
                [\<lparr>block_type = js ''text'',
                  block_text = js ''No tasks found matching the filter.''\<rparr>],
              isError = None\<rparr>\<close>
    if "getTasksByFilter client a = Inr []" for a
    using that
    by (simp add: CallTool_handler_def tool_switch_known getTasksByFilter_tool_def
        text_result_def)
  from server call listed show ?thesis by blast
qed

theorem filter_no_results_message_witness:
  \<open>server_tool_call (example_client (\<lambda>a. Inr [])) (Some [(js ''query'', JStr (js ''today''))]) =
     Invoked (Inr \<lparr>content_blocks =
                [\<lparr>block_type = js ''text'',
                  block_text = js ''No tasks found matching filter: "today"''\<rparr>],
              isError = None\<rparr>)
   \<and> CallTool_handler example_runtime (example_client (\<lambda>a. Inr []))
       (js ''todoist_get_tasks_by_filter'') (filter_query ''today'') =
     Inr \<lparr>content_blocks =
            [\<lparr>block_type = js ''text'',
              block_text = js ''No tasks found matching the filter.''\<rparr>],
          isError = None\<rparr>\<close>
proof -
  let ?c = "example_client (\<lambda>a. Inr [])"
  let ?obj = "[(js ''query'', JStr (js ''today''))]"
  have v: "schema_accepts server_filter_inputSchema (Some ?obj)"
    by (simp add: schema_accepts_def server_filter_inputSchema_def string_schema_accepts_def
        js_def)
  have s: "string_arg ?obj ''query'' = Some (js ''today'')"
    by (simp add: string_arg_def)
  have g: "getTasks ?c a = Inr []" for a
    by (simp add: example_client_def)
  have f: "getTasksByFilter ?c a = Inr []" for a
    by (simp add: example_client_def)
  from filter_no_results_message [of ?c example_runtime] v s g f
  have \<open>server_tool_call ?c (Some ?obj) =
     Invoked (Inr \<lparr>content_blocks =
                [\<lparr>block_type = js ''text'',
                  block_text = js ''No tasks found matching filter: "'' @ js ''today'' @ js ''"''\<rparr>],
              isError = None\<rparr>)\<close>
    and \<open>CallTool_handler example_runtime ?c
       (js ''todoist_get_tasks_by_filter'') (filter_query ''today'') =
     Inr \<lparr>content_blocks =
            [\<lparr>block_type = js ''text'',
              block_text = js ''No tasks found matching the filter.''\<rparr>],
          isError = None\<rparr>\<close>
    by blast+
  then show ?thesis by (simp add: js_def)
qed

section \<open>The formatting of a task\<close>





















section \<open>Unknown prompt names\<close>

text \<open>
  Claim C5, as stated: a prompt request with an unknown name is answered like a tool call
  with an unknown name, by a response and never by an exception that leaves the handler.
  For the name \<open>no_such_prompt\<close> the prompt handler ends in a failure, where the tool
  handler returns a response.
\<close>

theorem unknown_prompt_counterexample:
  "js ''no_such_prompt'' \<notin> set prompt_names
   \<and> isl (GetPrompt_handler example_runtime (example_client (\<lambda>a. Inr []))
            (js ''no_such_prompt'') None)
   \<and> \<not> isl (CallTool_handler example_runtime (example_client (\<lambda>a. Inr []))
            (js ''no_such_prompt'') None)"
proof -
  have p: "js ''no_such_prompt'' \<notin> set prompt_names"
    by (simp add: prompt_names_def js_def)
  have t: "js ''no_such_prompt'' \<notin> set tool_names"
    by (simp add: tool_names_def js_def)
  from p have "isl (GetPrompt_handler example_runtime (example_client (\<lambda>a. Inr []))
            (js ''no_such_prompt'') None)"
    by (simp add: GetPrompt_handler_def prompt_names_def)
  moreover from t have "\<not> isl (CallTool_handler example_runtime (example_client (\<lambda>a. Inr []))
            (js ''no_such_prompt'') None)"
    by (simp add: CallTool_handler_def tool_switch_unknown)
  ultimately show ?thesis using p by blast
qed

text \<open>
  Claim C5, amended. For every prompt request whose name is not a registered prompt name
  the prompt handler throws an Error with the message \<open>Unknown prompt: \<close> and the name.
  The handler has no \<open>catch\<close>: this failure, like the failure of the view a registered
  prompt embeds, leaves the handler. An unknown tool name, in contrast, comes back from
  the tool handler as a response with \<open>isError\<close> true.
\<close>

theorem unknown_prompt_is_thrown:
  "(name \<notin> set prompt_names \<longrightarrow>
      GetPrompt_handler rt client name a = Inl (ErrorInstance (js ''Unknown prompt: '' @ name)))
   \<and> (\<forall>e. generateDailyPlanningView rt client = Inl e \<longrightarrow>
        GetPrompt_handler rt client (js ''daily_planner'') a = Inl e)
   \<and> (\<forall>e. generateWeeklyPlanningView rt client = Inl e \<longrightarrow>
        GetPrompt_handler rt client (js ''task_manager'') a = Inl e)
   \<and> (name \<notin> set tool_names \<longrightarrow>
        (\<exists>result. CallTool_handler rt client name targs = Inr result
            \<and> isError result = Some True))"
proof -
  have unknown: "name \<notin> set prompt_names \<longrightarrow>
      GetPrompt_handler rt client name a = Inl (ErrorInstance (js ''Unknown prompt: '' @ name))"
    by (simp add: prompt_names_def GetPrompt_handler_def)
  have daily: "\<forall>e. generateDailyPlanningView rt client = Inl e \<longrightarrow>
        GetPrompt_handler rt client (js ''daily_planner'') a = Inl e"
    by (simp add: GetPrompt_handler_def generateDailyPlannerPrompt_def)
  have weekly: "\<forall>e. generateWeeklyPlanningView rt client = Inl e \<longrightarrow>
        GetPrompt_handler rt client (js ''task_manager'') a = Inl e"
    by (simp add: GetPrompt_handler_def generateTaskManagerPrompt_def js_def)
  have tool: "name \<notin> set tool_names \<longrightarrow>
        (\<exists>result. CallTool_handler rt client name targs = Inr result
            \<and> isError result = Some True)"
    by (simp add: CallTool_handler_def tool_switch_unknown)
  from unknown daily weekly tool show ?thesis by (intro conjI)
qed

theorem unknown_prompt_is_thrown_witness:
  "GetPrompt_handler example_runtime (example_client (\<lambda>a. Inr [])) (js ''weekly_planner'') None
     = Inl (ErrorInstance (js ''Unknown prompt: weekly_planner''))
   \<and> GetPrompt_handler example_runtime (example_client (\<lambda>a. Inl offline)) (js ''daily_planner'')
       None = Inl offline"
proof -
  have n: "js ''weekly_planner'' \<notin> set prompt_names"
    by (simp add: prompt_names_def js_def)
  have d: "generateDailyPlanningView example_runtime (example_client (\<lambda>a. Inl offline))
      = Inl offline"
    by (simp add: generateDailyPlanningView_def promise_all2_def example_client_def)
  from unknown_prompt_is_thrown
    [of "js ''weekly_planner''" example_runtime "example_client (\<lambda>a. Inr [])" None] n
  have one: "GetPrompt_handler example_runtime (example_client (\<lambda>a. Inr []))
      (js ''weekly_planner'') None
     = Inl (ErrorInstance (js ''Unknown prompt: '' @ js ''weekly_planner''))"
    by blast
  from unknown_prompt_is_thrown
    [of "js ''weekly_planner''" example_runtime "example_client (\<lambda>a. Inl offline)" None] d
  have two: "GetPrompt_handler example_runtime (example_client (\<lambda>a. Inl offline))
      (js ''daily_planner'') None = Inl offline"
    by blast
  from one two show ?thesis by (simp add: js_def)
qed

section \<open>The declared schema of the filter argument\<close>

text \<open>
  Claim C8, as stated: the declared input schema bounds the filter to 1 to 1024
  characters, so an empty or longer filter is rejected before the handler runs. The
  schema the full server declares for the tool accepts the empty filter and one of 1025
  code units, and its tool handler runs on the empty filter.
\<close>

theorem filter_schema_counterexample:
  "schema_accepts listed_filter_inputSchema (Some [(js ''filter'', JStr [])])
   \<and> schema_accepts listed_filter_inputSchema
       (Some [(js ''filter'', JStr (replicate 1025 0x61))])
   \<and> CallTool_handler example_runtime (example_client (\<lambda>a. Inr []))
       (js ''todoist_get_tasks_by_filter'') (Some [(js ''filter'', JStr [])])
     = Inr (text_result (js ''No tasks found matching the filter.''))"
proof -
  have "schema_accepts listed_filter_inputSchema (Some [(js ''filter'', JStr [])])"
    and "schema_accepts listed_filter_inputSchema
       (Some [(js ''filter'', JStr (replicate 1025 0x61))])"
    by (simp_all add: schema_accepts_def listed_filter_inputSchema_def
        string_schema_accepts_def js_def)
  moreover have "CallTool_handler example_runtime (example_client (\<lambda>a. Inr []))
       (js ''todoist_get_tasks_by_filter'') (Some [(js ''filter'', JStr [])])
     = Inr (text_result (js ''No tasks found matching the filter.''))"
    by (simp add: CallTool_handler_def tool_switch_known getTasksByFilter_tool_def
        example_client_def)
  ultimately show ?thesis by blast
qed

text \<open>
  Claim C8, amended. The schema the single-tool server declares bounds its filter
  argument, named \<open>query\<close>, to a string of 1 to 1024 code units: arguments it accepts
  have such a query, a call whose query is empty or longer than 1024 is rejected and the
  handler does not run, and a call that is not rejected runs the handler on that query.
  The schema the full server declares requires \<open>filter\<close> to be a string and gives no
  bound: it accepts a filter of any length.
\<close>

theorem filter_schema_bounds:
  "(schema_accepts server_filter_inputSchema a \<longrightarrow>
      (\<exists>obj query. a = Some obj \<and> string_arg obj ''query'' = Some query
          \<and> 1 \<le> length query \<and> length query \<le> 1024))
   \<and> (\<forall>obj query. a = Some obj \<and> string_arg obj ''query'' = Some query
          \<and> (length query = 0 \<or> 1024 < length query) \<longrightarrow>
        server_tool_call client a = InvalidParams)
   \<and> (server_tool_call client a \<noteq> InvalidParams \<longrightarrow>
        (\<exists>obj query. a = Some obj \<and> string_arg obj ''query'' = Some query
            \<and> 1 \<le> length query \<and> length query \<le> 1024
            \<and> server_tool_call client a =
                Invoked (todoist_get_tasks_by_filter client query (string_arg obj ''lang''))))
   \<and> (\<forall>obj f. a = Some obj \<and> string_arg obj ''filter'' = Some f
          \<and> map_of obj (js ''lang'') = None \<longrightarrow>
        schema_accepts listed_filter_inputSchema a)"
proof -
  have bounded: "\<exists>obj query. a = Some obj \<and> string_arg obj ''query'' = Some query
          \<and> 1 \<le> length query \<and> length query \<le> 1024"
    if "schema_accepts server_filter_inputSchema a"
    using that
    by (auto simp: schema_accepts_def server_filter_inputSchema_def string_schema_accepts_def
        string_arg_def split: option.splits jsval.splits)
  have rejected: "server_tool_call client a = InvalidParams"
    if "a = Some obj" and "string_arg obj ''query'' = Some query"
      and "length query = 0 \<or> 1024 < length query"
    for obj query
  proof -
    have "\<not> schema_accepts server_filter_inputSchema a"
    proof
      assume "schema_accepts server_filter_inputSchema a"
      from bounded [OF this] that show False by auto
    qed
    then show ?thesis by (simp add: server_tool_call_def)
  qed
  have invoked: "\<exists>obj query. a = Some obj \<and> string_arg obj ''query'' = Some query
            \<and> 1 \<le> length query \<and> length query \<le> 1024
            \<and> server_tool_call client a =
                Invoked (todoist_get_tasks_by_filter client query (string_arg obj ''lang''))"
    if "server_tool_call client a \<noteq> InvalidParams"
  proof -
    from that have "schema_accepts server_filter_inputSchema a"
      by (auto simp: server_tool_call_def split: if_splits)
    from bounded [OF this] obtain obj query where
      "a = Some obj" "string_arg obj ''query'' = Some query"
      "1 \<le> length query" "length query \<le> 1024"
      by blast
    with \<open>schema_accepts server_filter_inputSchema a\<close> show ?thesis
      by (simp add: server_tool_call_def)
  qed
  have listed: "schema_accepts listed_filter_inputSchema a"
    if "a = Some obj" and "string_arg obj ''filter'' = Some f"
      and "map_of obj (js ''lang'') = None"
    for obj f
    using that
    by (auto simp: schema_accepts_def listed_filter_inputSchema_def string_schema_accepts_def
        string_arg_def split: option.splits jsval.splits)
  from bounded rejected invoked listed show ?thesis by blast
qed

theorem filter_schema_bounds_witness:
  "server_tool_call (example_client (\<lambda>a. Inr [])) (Some [(js ''query'', JStr [])])
     = InvalidParams
   \<and> server_tool_call (example_client (\<lambda>a. Inr []))
       (Some [(js ''query'', JStr (replicate 1025 0x61))]) = InvalidParams
   \<and> schema_accepts server_filter_inputSchema (Some [(js ''query'', JStr (replicate 1024 0x61))])
   \<and> schema_accepts listed_filter_inputSchema
       (Some [(js ''filter'', JStr (replicate 2000 0x61))])"
proof -
  let ?c = "example_client (\<lambda>a. Inr [])"
  have e: "string_arg [(js ''query'', JStr [])] ''query'' = Some []"
    and l: "string_arg [(js ''query'', JStr (replicate 1025 0x61))] ''query''
        = Some (replicate 1025 0x61)"
    and f: "string_arg [(js ''filter'', JStr (replicate 2000 0x61))] ''filter''
        = Some (replicate 2000 0x61)"
    and g: "map_of [(js ''filter'', JStr (replicate 2000 0x61))] (js ''lang'') = None"
    by (simp_all add: string_arg_def js_def)
  from filter_schema_bounds [of "Some [(js ''query'', JStr [])]" ?c] e
  have one: "server_tool_call ?c (Some [(js ''query'', JStr [])]) = InvalidParams"
    by simp
  from filter_schema_bounds [of "Some [(js ''query'', JStr (replicate 1025 0x61))]" ?c] l
  have two: "server_tool_call ?c (Some [(js ''query'', JStr (replicate 1025 0x61))])
      = InvalidParams"
    by simp
  have three: "schema_accepts server_filter_inputSchema
      (Some [(js ''query'', JStr (replicate 1024 0x61))])"
    by (simp add: schema_accepts_def server_filter_inputSchema_def string_schema_accepts_def
        js_def)
  from filter_schema_bounds [of "Some [(js ''filter'', JStr (replicate 2000 0x61))]" ?c] f g
  have four: "schema_accepts listed_filter_inputSchema
      (Some [(js ''filter'', JStr (replicate 2000 0x61))])"
    by simp
  from one two three four show ?thesis by blast
qed

end
